theory Spec2Isabelle
  imports Complex_Main "HOL-Library.Sublist"
begin

section \<open>Python strings\<close>

text \<open>
  A Python \<^verbatim>\<open>str\<close> is a sequence of Unicode code points, so a text is the list of its
  code points (what \<^verbatim>\<open>ord\<close> returns) and \<^verbatim>\<open>len\<close> is \<open>length\<close>. \<open>str\<close> embeds an ASCII
  literal. The character predicates and case mappings below follow Python on the code
  points below 256 (ASCII and Latin-1); \<open>is_space\<close> is the full list of \<^verbatim>\<open>str.isspace\<close>.
  Code points from 256 on are taken to have no case and not to be digits.
\<close>

type_synonym pystr = "int list"

definition str :: "string \<Rightarrow> pystr" where
  "str s = map of_char s"

definition is_space :: "int \<Rightarrow> bool" where
  "is_space c \<longleftrightarrow>
     (9 \<le> c \<and> c \<le> 13) \<or> (28 \<le> c \<and> c \<le> 32) \<or> c = 133 \<or> c = 160 \<or> c = 5760 \<or>
     (8192 \<le> c \<and> c \<le> 8202) \<or> c = 8232 \<or> c = 8233 \<or> c = 8239 \<or> c = 8287 \<or> c = 12288"

definition is_digit :: "int \<Rightarrow> bool" where
  "is_digit c \<longleftrightarrow> 48 \<le> c \<and> c \<le> 57"

definition is_upper_cp :: "int \<Rightarrow> bool" where
  "is_upper_cp c \<longleftrightarrow> (65 \<le> c \<and> c \<le> 90) \<or> (192 \<le> c \<and> c \<le> 222 \<and> c \<noteq> 215)"

definition is_lower_cp :: "int \<Rightarrow> bool" where
  "is_lower_cp c \<longleftrightarrow>
     (97 \<le> c \<and> c \<le> 122) \<or> c = 170 \<or> c = 181 \<or> c = 186 \<or> (223 \<le> c \<and> c \<le> 255 \<and> c \<noteq> 247)"

definition lower_cp :: "int \<Rightarrow> int" where
  "lower_cp c = (if is_upper_cp c then c + 32 else c)"

definition upper_cp :: "int \<Rightarrow> int" where
  "upper_cp c =
     (if (97 \<le> c \<and> c \<le> 122) \<or> (224 \<le> c \<and> c \<le> 254 \<and> c \<noteq> 247) then c - 32
      else if c = 255 then 376 else if c = 181 then 924 else c)"

text \<open>\<^verbatim>\<open>s.lower()\<close>\<close>

definition lower :: "pystr \<Rightarrow> pystr" where
  "lower s = map lower_cp s"

text \<open>\<^verbatim>\<open>s.strip()\<close>\<close>

definition strip :: "pystr \<Rightarrow> pystr" where
  "strip s = rev (dropWhile is_space (rev (dropWhile is_space s)))"

text \<open>\<^verbatim>\<open>s.split()\<close>: the maximal runs of non-whitespace characters.\<close>

fun split_acc :: "pystr \<Rightarrow> pystr \<Rightarrow> pystr list" where
  "split_acc cur [] = (if cur = [] then [] else [cur])"
| "split_acc cur (c # cs) =
     (if is_space c then (if cur = [] then split_acc [] cs else cur # split_acc [] cs)
      else split_acc (cur @ [c]) cs)"

definition split_ws :: "pystr \<Rightarrow> pystr list" where
  "split_ws s = split_acc [] s"

text \<open>\<^verbatim>\<open>s.split(sep)\<close> for a separator of one character: empty pieces are kept.\<close>

fun split_on_acc :: "int \<Rightarrow> pystr \<Rightarrow> pystr \<Rightarrow> pystr list" where
  "split_on_acc sep cur [] = [cur]"
| "split_on_acc sep cur (c # cs) =
     (if c = sep then cur # split_on_acc sep [] cs else split_on_acc sep (cur @ [c]) cs)"

definition split_on :: "int \<Rightarrow> pystr \<Rightarrow> pystr list" where
  "split_on sep s = split_on_acc sep [] s"

text \<open>\<^verbatim>\<open>sep.join(xs)\<close>\<close>

fun join :: "pystr \<Rightarrow> pystr list \<Rightarrow> pystr" where
  "join sep [] = []"
| "join sep [x] = x"
| "join sep (x # y # ys) = x @ sep @ join sep (y # ys)"

text \<open>\<^verbatim>\<open>sub in s\<close>\<close>

fun starts_with :: "pystr \<Rightarrow> pystr \<Rightarrow> bool" where
  "starts_with [] s = True"
| "starts_with (a # as) [] = False"
| "starts_with (a # as) (c # cs) = (a = c \<and> starts_with as cs)"

fun contains :: "pystr \<Rightarrow> pystr \<Rightarrow> bool" where
  "contains sub [] = (sub = [])"
| "contains sub (c # cs) = (starts_with sub (c # cs) \<or> contains sub cs)"

text \<open>\<^verbatim>\<open>s.replace(c, '')\<close> for a single character \<open>c\<close>\<close>

definition remove_char :: "int \<Rightarrow> pystr \<Rightarrow> pystr" where
  "remove_char c s = filter (\<lambda>x. x \<noteq> c) s"

text \<open>\<^verbatim>\<open>s.isdigit()\<close>; the superscripts 1, 2 and 3 of Latin-1 count as digits here,
  not for the class \<^verbatim>\<open>\d\<close>.\<close>

definition str_isdigit :: "pystr \<Rightarrow> bool" where
  "str_isdigit s \<longleftrightarrow> s \<noteq> [] \<and> list_all (\<lambda>c. is_digit c \<or> c = 178 \<or> c = 179 \<or> c = 185) s"

text \<open>\<^verbatim>\<open>s.isupper()\<close>: some cased character, and no lowercase one.\<close>

definition str_isupper :: "pystr \<Rightarrow> bool" where
  "str_isupper s \<longleftrightarrow> list_ex is_upper_cp s \<and> \<not> list_ex is_lower_cp s"

text \<open>The decimal numeral of a natural number, as an f-string prints it.\<close>

function show_nat :: "nat \<Rightarrow> pystr" where
  "show_nat n = (if n < 10 then [48 + int n] else show_nat (n div 10) @ [48 + int (n mod 10)])"
  by pat_completeness auto
termination
  by (relation "measure id") auto

section \<open>Regular expressions\<close>

text \<open>
  The patterns of the source use literals, the classes \<^verbatim>\<open>\d\<close>, \<^verbatim>\<open>\s\<close> and bracket
  sets, concatenation, alternation, \<^verbatim>\<open>*\<close>, \<^verbatim>\<open>+\<close>, \<^verbatim>\<open>?\<close> and counted repetition.
  For such patterns \<^verbatim>\<open>re.search\<close> is truthy exactly when some substring of the text is
  in the pattern's language, which Brzozowski derivatives decide. The flag \<open>ic\<close> is
  \<^verbatim>\<open>re.IGNORECASE\<close>.
\<close>

datatype cclass = Lit int | Digit | Space | Range int int | Union cclass cclass

datatype regex = Never | Empty | Sym cclass | Seq regex regex | Alt regex regex | Star regex

fun cmatch :: "bool \<Rightarrow> cclass \<Rightarrow> int \<Rightarrow> bool" where
  "cmatch ic (Lit a) c = (if ic then lower_cp c = lower_cp a else c = a)"
| "cmatch ic Digit c = is_digit c"
| "cmatch ic Space c = is_space c"
| "cmatch ic (Range a b) c =
     ((a \<le> c \<and> c \<le> b) \<or>
      (ic \<and> ((a \<le> lower_cp c \<and> lower_cp c \<le> b) \<or> (a \<le> upper_cp c \<and> upper_cp c \<le> b))))"
| "cmatch ic (Union k l) c = (cmatch ic k c \<or> cmatch ic l c)"

fun nullable :: "regex \<Rightarrow> bool" where
  "nullable Never = False"
| "nullable Empty = True"
| "nullable (Sym k) = False"
| "nullable (Seq r s) = (nullable r \<and> nullable s)"
| "nullable (Alt r s) = (nullable r \<or> nullable s)"
| "nullable (Star r) = True"

text \<open>Concatenation and alternation that drop the empty language, to keep derivatives small.\<close>

definition seq :: "regex \<Rightarrow> regex \<Rightarrow> regex" where
  "seq r s = (if r = Never \<or> s = Never then Never else if r = Empty then s else Seq r s)"

definition alt :: "regex \<Rightarrow> regex \<Rightarrow> regex" where
  "alt r s = (if r = Never then s else if s = Never then r else Alt r s)"

fun deriv :: "bool \<Rightarrow> int \<Rightarrow> regex \<Rightarrow> regex" where
  "deriv ic c Never = Never"
| "deriv ic c Empty = Never"
| "deriv ic c (Sym k) = (if cmatch ic k c then Empty else Never)"
| "deriv ic c (Seq r s) =
     alt (seq (deriv ic c r) s) (if nullable r then deriv ic c s else Never)"
| "deriv ic c (Alt r s) = alt (deriv ic c r) (deriv ic c s)"
| "deriv ic c (Star r) = seq (deriv ic c r) (Star r)"

text \<open>Some prefix of the text is in the language.\<close>

fun prefix_match :: "bool \<Rightarrow> regex \<Rightarrow> pystr \<Rightarrow> bool" where
  "prefix_match ic r [] = nullable r"
| "prefix_match ic r (c # cs) =
     (nullable r \<or> (deriv ic c r \<noteq> Never \<and> prefix_match ic (deriv ic c r) cs))"

text \<open>\<^verbatim>\<open>re.search(r, s)\<close> is truthy: a match starts at some position of the text.\<close>

fun re_search :: "bool \<Rightarrow> regex \<Rightarrow> pystr \<Rightarrow> bool" where
  "re_search ic r [] = nullable r"
| "re_search ic r (c # cs) = (prefix_match ic r (c # cs) \<or> re_search ic r cs)"

text \<open>
  \<^verbatim>\<open>re.match('^...$', s)\<close> on a text without a line break: the whole text is in the
  language.
\<close>

definition re_fullmatch :: "bool \<Rightarrow> regex \<Rightarrow> pystr \<Rightarrow> bool" where
  "re_fullmatch ic r s = nullable (fold (deriv ic) s r)"

text \<open>Pattern syntax.\<close>

definition lit :: "char \<Rightarrow> regex" where
  "lit c = Sym (Lit (of_char c))"

fun word :: "string \<Rightarrow> regex" where
  "word [] = Empty"
| "word [c] = lit c"
| "word (c # cs) = Seq (lit c) (word cs)"

definition plus :: "regex \<Rightarrow> regex" where
  "plus r = Seq r (Star r)"

definition opt :: "regex \<Rightarrow> regex" where
  "opt r = Alt Empty r"

fun times :: "nat \<Rightarrow> regex \<Rightarrow> regex" where
  "times 0 r = Empty"
| "times (Suc 0) r = r"
| "times (Suc n) r = Seq r (times n r)"

text \<open>\<^verbatim>\<open>r{m,n}\<close> is \<open>from_to m (n - m) r\<close>: \<open>m\<close> copies, then up to \<open>n - m\<close> more.\<close>

fun upto_times :: "nat \<Rightarrow> regex \<Rightarrow> regex" where
  "upto_times 0 r = Empty"
| "upto_times (Suc n) r = opt (Seq r (upto_times n r))"

definition from_to :: "nat \<Rightarrow> nat \<Rightarrow> regex \<Rightarrow> regex" where
  "from_to m k r = Seq (times m r) (upto_times k r)"

fun seqs :: "regex list \<Rightarrow> regex" where
  "seqs [] = Empty"
| "seqs [r] = r"
| "seqs (r # rs) = Seq r (seqs rs)"

fun alts :: "regex list \<Rightarrow> regex" where
  "alts [] = Never"
| "alts [r] = r"
| "alts (r # rs) = Alt r (alts rs)"

definition ch :: "char \<Rightarrow> cclass" where
  "ch c = Lit (of_char c)"

abbreviation dgt :: regex where "dgt \<equiv> Sym Digit"
abbreviation wsp :: regex where "wsp \<equiv> Sym Space"

subsection \<open>The language of a pattern\<close>

text \<open>
  The set of texts that a pattern matches as a whole; the matcher is proved against it
  below.
\<close>

definition conc :: "pystr set \<Rightarrow> pystr set \<Rightarrow> pystr set" where
  "conc A B = {u @ v | u v. u \<in> A \<and> v \<in> B}"

inductive_set star :: "pystr set \<Rightarrow> pystr set" for A :: "pystr set" where
  star_Nil: "[] \<in> star A"
| star_step: "u \<in> A \<Longrightarrow> v \<in> star A \<Longrightarrow> u @ v \<in> star A"

fun lang :: "bool \<Rightarrow> regex \<Rightarrow> pystr set" where
  "lang ic Never = {}"
| "lang ic Empty = {[]}"
| "lang ic (Sym k) = {[c] | c. cmatch ic k c}"
| "lang ic (Seq r s) = conc (lang ic r) (lang ic s)"
| "lang ic (Alt r s) = lang ic r \<union> lang ic s"
| "lang ic (Star r) = star (lang ic r)"

section \<open>The spatial invoice chunker\<close>

subsection \<open>Data\<close>

text \<open>
  Extracted elements, pages and tables are dictionaries read with \<^verbatim>\<open>get\<close> and a default,
  so each key is an optional field. A bounding box is a list of four numbers; coordinates
  and font sizes are real numbers here.
\<close>

text \<open>
  The confidence of a chunk is a Python \<^verbatim>\<open>float\<close>: a number, an infinity or NaN. Every
  comparison with NaN is false, and \<^verbatim>\<open>max(a, b)\<close> is \<open>b\<close> when \<^verbatim>\<open>b > a\<close> and \<open>a\<close>
  otherwise.
\<close>

datatype pyfloat = NaN | NegInf | Fin real | PosInf

fun fl_less :: "pyfloat \<Rightarrow> pyfloat \<Rightarrow> bool" where
  "fl_less NaN y = False"
| "fl_less x NaN = False"
| "fl_less (Fin a) (Fin b) = (a < b)"
| "fl_less PosInf y = False"
| "fl_less x NegInf = False"
| "fl_less NegInf y = True"
| "fl_less x PosInf = True"

fun fl_le :: "pyfloat \<Rightarrow> pyfloat \<Rightarrow> bool" where
  "fl_le NaN y = False"
| "fl_le x NaN = False"
| "fl_le (Fin a) (Fin b) = (a \<le> b)"
| "fl_le NegInf y = True"
| "fl_le x PosInf = True"
| "fl_le PosInf y = False"
| "fl_le x NegInf = False"

definition py_max :: "pyfloat \<Rightarrow> pyfloat \<Rightarrow> pyfloat" where
  "py_max a b = (if fl_less a b then b else a)"

type_synonym bbox = "real \<times> real \<times> real \<times> real"

fun b0 :: "bbox \<Rightarrow> real" where "b0 (x0, y0, x1, y1) = x0"
fun b1 :: "bbox \<Rightarrow> real" where "b1 (x0, y0, x1, y1) = y0"
fun b2 :: "bbox \<Rightarrow> real" where "b2 (x0, y0, x1, y1) = x1"
fun b3 :: "bbox \<Rightarrow> real" where "b3 (x0, y0, x1, y1) = y1"

record font_info =
  font_name :: "pystr option"
  font_size :: "real option"

record element =
  el_text :: "pystr option"
  el_bbox :: "bbox option"
  el_font_info :: "font_info option"

record page =
  pg_elements :: "element list option"

record table =
  tb_data :: "pystr list list option"
  tb_bbox :: "bbox option"
  tb_page :: "int option"

record InvoiceChunk =
  content :: pystr
  chunk_type :: string
  elements :: "element list"
  bbox :: bbox
  page_number :: int
  confidence :: pyfloat

record text_extraction =
  te_pages :: "page list option"

record table_extraction =
  te_tables :: "table list option"

record extraction_result =
  er_text_extraction :: "text_extraction option"
  er_table_extraction :: "table_extraction option"

text \<open>\<^verbatim>\<open>element.get('text', '')\<close>, \<^verbatim>\<open>element.get('bbox', [0,0,0,0])\<close> and
  \<^verbatim>\<open>element.get('font_info', {}).get('size', 10)\<close>\<close>

definition get_text :: "element \<Rightarrow> pystr" where
  "get_text e = (case el_text e of None \<Rightarrow> [] | Some t \<Rightarrow> t)"

definition get_bbox :: "element \<Rightarrow> bbox" where
  "get_bbox e = (case el_bbox e of None \<Rightarrow> (0, 0, 0, 0) | Some b \<Rightarrow> b)"

definition get_font_size :: "element \<Rightarrow> real" where
  "get_font_size e =
     (case el_font_info e of None \<Rightarrow> 10
      | Some f \<Rightarrow> (case font_size f of None \<Rightarrow> 10 | Some z \<Rightarrow> z))"

subsection \<open>Patterns\<close>

definition chunk_types :: "string list" where
  "chunk_types = [''header'', ''addresses'', ''line_items'', ''totals'', ''footer'']"

text \<open>\<^verbatim>\<open>[a-z\s]\<close>, \<^verbatim>\<open>[a-z]\<close>, \<^verbatim>\<open>[/-]\<close>, \<^verbatim>\<open>[,.]\<close> and \<^verbatim>\<open>[\d,]\<close>\<close>

definition az_space :: regex where "az_space = Sym (Union (Range 97 122) Space)"
definition az :: regex where "az = Sym (Range 97 122)"
definition slash_dash :: regex where "slash_dash = Sym (Union (ch CHR ''/'') (ch CHR ''-''))"
definition comma_dot :: regex where "comma_dot = Sym (Union (ch CHR '','') (ch CHR ''.''))"
definition digit_comma :: regex where "digit_comma = Sym (Union Digit (ch CHR '',''))"

text \<open>
  \<^verbatim>\<open>self.content_patterns\<close>, in the insertion order of the dictionary and of each list.
\<close>

definition content_patterns :: "(string \<times> regex list) list" where
  "content_patterns =
    [(''header'',
       [seqs [word ''invoice'', Star wsp, opt (lit CHR ''#''), Star wsp, plus dgt],
        seqs [word ''bill'', Star wsp, opt (lit CHR ''#''), Star wsp, plus dgt],
        seqs [word ''date'', Star wsp, opt (lit CHR '':''), Star wsp, from_to 1 1 dgt, slash_dash,
              from_to 1 1 dgt, slash_dash, from_to 2 2 dgt],
        seqs [word ''invoice'', Star wsp, word ''date''],
        seqs [word ''due'', Star wsp, word ''date'']]),
     (''addresses'',
       [seqs [word ''bill'', Star wsp, word ''to'', Star wsp, opt (lit CHR '':'')],
        seqs [word ''ship'', Star wsp, word ''to'', Star wsp, opt (lit CHR '':'')],
        seqs [word ''sold'', Star wsp, word ''to'', Star wsp, opt (lit CHR '':'')],
        seqs [word ''customer'', Star wsp, opt (lit CHR '':'')],
        seqs [plus dgt, plus wsp, plus az_space, plus wsp,
              alts [word ''st'', word ''ave'', word ''rd'', word ''blvd'', word ''drive'',
                    word ''lane'']],
        seqs [plus az_space, lit CHR '','', Star wsp, times 2 az, Star wsp, times 5 dgt]]),
     (''line_items'',
       [word ''description'',
        Alt (word ''quantity'') (word ''qty''),
        alts [word ''price'', word ''rate'', word ''amount''],
        seqs [word ''item'', Star wsp, opt (lit CHR ''#'')],
        word ''product'',
        word ''service'']),
     (''totals'',
       [Alt (word ''subtotal'') (seqs [word ''sub'', Star wsp, word ''total'']),
        Alt (word ''tax'') (word ''vat''),
        Alt (word ''total'') (seqs [word ''grand'', Star wsp, word ''total'']),
        seqs [word ''amount'', Star wsp, word ''due''],
        word ''balance'',
        word ''discount''])]"

text \<open>
  The currency marker of this file is the three characters U+201A, U+00C7, U+00A8 (its
  source text holds them where a euro sign was meant), and the unit pattern holds the
  two characters U+221A, U+00BA where a u umlaut was meant.
\<close>

definition currency_marker :: pystr where
  "currency_marker = [8218, 199, 168]"

definition currency_rx :: regex where
  "currency_rx = seqs [Sym (Lit 8218), Sym (Lit 199), Sym (Lit 168)]"

text \<open>\<^verbatim>\<open>\d+[,.]\d+\s*<marker>\<close>\<close>

definition money_amount_rx :: regex where
  "money_amount_rx = seqs [plus dgt, comma_dot, plus dgt, Star wsp, currency_rx]"

text \<open>\<^verbatim>\<open>\$[\d,]+\.?\d*\<close>\<close>

definition dollar_rx :: regex where
  "dollar_rx = seqs [lit CHR ''$'', plus digit_comma, opt (lit CHR ''.''), Star dgt]"

text \<open>\<^verbatim>\<open>\d+\.\d{2}|\d+\s*x\s*\d+\<close>\<close>

definition structured_rx :: regex where
  "structured_rx =
     Alt (seqs [plus dgt, lit CHR ''.'', times 2 dgt])
         (seqs [plus dgt, Star wsp, lit CHR ''x'', Star wsp, plus dgt])"

text \<open>\<^verbatim>\<open>\d+\s+[a-z\s]+(st|ave|rd|blvd)\<close>\<close>

definition street_rx :: regex where
  "street_rx =
     seqs [plus dgt, plus wsp, plus az_space,
           alts [word ''st'', word ''ave'', word ''rd'', word ''blvd'']]"

text \<open>\<^verbatim>\<open>^\d+[,.]?\d*$\<close>\<close>

definition quantity_rx :: regex where
  "quantity_rx = seqs [plus dgt, opt comma_dot, Star dgt]"

text \<open>\<^verbatim>\<open>^(Std\.|Stk\.|St\.|St<U+221A><U+00BA>ck|Hours?|pcs?)\.?$\<close>\<close>

definition unit_rx :: regex where
  "unit_rx =
     Seq (alts [word ''Std.'', word ''Stk.'', word ''St.'',
                seqs [word ''St'', Sym (Lit 8730), Sym (Lit 186), word ''ck''],
                Seq (word ''Hour'') (opt (lit CHR ''s'')),
                Seq (word ''pc'') (opt (lit CHR ''s''))])
         (opt (lit CHR ''.''))"

text \<open>\<^verbatim>\<open>\d+[,.]?\d*\s*<marker>\<close>\<close>

definition price_rx :: regex where
  "price_rx = seqs [plus dgt, opt comma_dot, Star dgt, Star wsp, currency_rx]"

text \<open>\<^verbatim>\<open>\d+%\<close>\<close>

definition percent_rx :: regex where
  "percent_rx = Seq (plus dgt) (lit CHR ''%'')"

definition totals_keywords :: "pystr list" where
  "totals_keywords =
     map str [''gesamt'', ''total'', ''summe'', ''betrag'', ''steuer'', ''mwst'', ''ust'']"

subsection \<open>Grouping and classification\<close>

text \<open>
  The two nested loops over \<^verbatim>\<open>content_patterns\<close>: the first chunk type one of whose
  patterns is found in the text, if any.
\<close>

fun match_content_patterns :: "(string \<times> regex list) list \<Rightarrow> pystr \<Rightarrow> string option" where
  "match_content_patterns [] text = None"
| "match_content_patterns ((ctype, patterns) # rest) text =
     (if list_ex (\<lambda>pattern. re_search True pattern text) patterns then Some ctype
      else match_content_patterns rest text)"

definition spatial_fallback :: "pystr \<Rightarrow> real \<Rightarrow> real \<Rightarrow> string" where
  "spatial_fallback text y_position fsize =
     (if y_position > 700 \<and> fsize > 12 then ''header''
      else if y_position < 200 \<and> re_search False dollar_rx text then ''totals''
      else if 200 < y_position \<and> y_position < 700 \<and> re_search False structured_rx text
        then ''line_items''
      else if y_position > 500 \<and> re_search True street_rx text then ''addresses''
      else if y_position > 400 then ''header'' else ''footer'')"

text \<open>
  \<^verbatim>\<open>_classify_element_adaptively(element, text, bbox, font_info)\<close>; the caller passes the
  lowercased text, the bounding box and the font information of the element.
\<close>

definition classify_element_adaptively :: "pystr \<Rightarrow> bbox \<Rightarrow> real \<Rightarrow> string" where
  "classify_element_adaptively text bx fsize =
     (case match_content_patterns content_patterns text of
        Some ctype \<Rightarrow> ctype
      | None \<Rightarrow> spatial_fallback text (b1 bx) fsize)"

definition classify_element :: "element \<Rightarrow> string" where
  "classify_element e =
     classify_element_adaptively (lower (get_text e)) (get_bbox e) (get_font_size e)"

text \<open>The first loop of \<^verbatim>\<open>_adaptive_spatial_grouping\<close>, on the pair of the two lists.\<close>

definition separate_totals :: "element \<Rightarrow> element list \<times> element list \<Rightarrow> element list \<times> element list"
  where
  "separate_totals e acc =
     (case acc of (totals_elements, other_elements) \<Rightarrow>
        if list_ex (\<lambda>pattern. contains pattern (lower (get_text e))) totals_keywords
          then (totals_elements @ [e], other_elements)
        else if re_search False money_amount_rx (lower (get_text e)) \<and>
                list_ex (\<lambda>w. contains w (lower (get_text e))) [currency_marker]
          then (if b0 (get_bbox e) > 400 then (totals_elements @ [e], other_elements)
                else (totals_elements, other_elements @ [e]))
        else (totals_elements, other_elements @ [e]))"

text \<open>
  \<^verbatim>\<open>_adaptive_spatial_grouping\<close>. The dictionary \<^verbatim>\<open>groups\<close> has the five keys of
  \<^verbatim>\<open>chunk_types\<close> from its creation on, in that order; it is a function from keys to
  lists, read in the order of \<open>chunk_types\<close>. \<^verbatim>\<open>sorted(..., reverse=True)\<close> is a stable
  sort on the descending key.
\<close>

definition adaptive_spatial_grouping :: "element list \<Rightarrow> string \<Rightarrow> element list" where
  "adaptive_spatial_grouping els =
     (let sorted_elements = sort_key (\<lambda>e. - b1 (get_bbox e)) els;
          (totals_elements, other_elements) = fold separate_totals sorted_elements ([], []);
          groups = (\<lambda>ctype. []);
          groups = groups(''totals'' := totals_elements)
      in fold (\<lambda>e groups. groups(classify_element e := groups (classify_element e) @ [e]))
           other_elements groups)"

subsection \<open>Building chunks\<close>

text \<open>\<^verbatim>\<open>min\<close> and \<^verbatim>\<open>max\<close> of a non-empty list.\<close>

definition list_min :: "real list \<Rightarrow> real" where
  "list_min xs = fold min (tl xs) (hd xs)"

definition list_max :: "real list \<Rightarrow> real" where
  "list_max xs = fold max (tl xs) (hd xs)"

text \<open>
  \<^verbatim>\<open>_create_chunk_from_elements\<close>. The dictionary \<^verbatim>\<open>metadata\<close> that the source computes
  is not part of the chunk it returns.
\<close>

definition create_chunk_from_elements :: "element list \<Rightarrow> string \<Rightarrow> int \<Rightarrow> InvoiceChunk" where
  "create_chunk_from_elements els ctype page_num =
     (let combined_text = join [10] (map get_text els);
          bboxes = concat (map (\<lambda>elem. case el_bbox elem of None \<Rightarrow> [] | Some b \<Rightarrow> [b]) els);
          chunk_bbox =
            (if bboxes \<noteq> []
             then (list_min (map b0 bboxes), list_min (map b1 bboxes),
                   list_max (map b2 bboxes), list_max (map b3 bboxes))
             else (0, 0, 0, 0))
      in \<lparr>content = combined_text, chunk_type = ctype, elements = els, bbox = chunk_bbox,
          page_number = page_num, confidence = Fin 0.8\<rparr>)"

record parsed_details =
  quantity :: "pystr option"
  unit :: "pystr option"
  unit_price :: "pystr option"
  tax_rate :: "pystr option"
  line_total :: "pystr option"

definition no_details :: parsed_details where
  "no_details =
     \<lparr>quantity = None, unit = None, unit_price = None, tax_rate = None, line_total = None\<rparr>"

text \<open>The body of the loop of \<^verbatim>\<open>_parse_line_item_details\<close>.\<close>

definition parse_line :: "pystr \<Rightarrow> parsed_details \<Rightarrow> parsed_details" where
  "parse_line line parsed =
     (if re_fullmatch False quantity_rx line then parsed\<lparr>quantity := Some line\<rparr>
      else if re_fullmatch True unit_rx line then parsed\<lparr>unit := Some line\<rparr>
      else if re_search False price_rx line then
        (if unit_price parsed = None then parsed\<lparr>unit_price := Some line\<rparr>
         else parsed\<lparr>line_total := Some line\<rparr>)
      else if re_search False percent_rx line then parsed\<lparr>tax_rate := Some line\<rparr>
      else parsed)"

definition detail_lines :: "pystr \<Rightarrow> pystr list" where
  "detail_lines details_text =
     map strip (filter (\<lambda>line. strip line \<noteq> []) (split_on 10 details_text))"

definition parse_line_item_details :: "pystr \<Rightarrow> parsed_details" where
  "parse_line_item_details details_text = fold parse_line (detail_lines details_text) no_details"

text \<open>\<^verbatim>\<open>parsed_details.get(key, 'N/A')\<close>\<close>

definition or_na :: "pystr option \<Rightarrow> pystr" where
  "or_na v = (case v of None \<Rightarrow> str ''N/A'' | Some x \<Rightarrow> x)"

text \<open>
  The text that one row of a table adds; cells are strings, so \<^verbatim>\<open>str(c) if c else ""\<close>
  is the cell itself.
\<close>

definition line_item_text :: "nat \<times> pystr list \<Rightarrow> pystr" where
  "line_item_text ir =
     (case ir of (i, row) \<Rightarrow>
        if length row \<ge> 2 then
          (let description = row ! 0; details = row ! 1;
               parsed = parse_line_item_details details
           in str ''LINE ITEM '' @ show_nat i @ str '':'' @ [10] @
              str ''  Description: '' @ description @ [10] @
              str ''  Quantity: '' @ or_na (quantity parsed) @ [10] @
              str ''  Unit: '' @ or_na (unit parsed) @ [10] @
              str ''  Unit Price: '' @ or_na (unit_price parsed) @ [10] @
              str ''  Tax Rate: '' @ or_na (tax_rate parsed) @ [10] @
              str ''  Line Total: '' @ or_na (line_total parsed) @ [10] @
              replicate 30 45 @ [10])
        else [])"

definition table_text :: "table \<Rightarrow> pystr" where
  "table_text tb =
     (case tb_data tb of
        None \<Rightarrow> []
      | Some rows \<Rightarrow>
          if rows = [] then []
          else fold (\<lambda>ir text. text @ line_item_text ir) (enumerate 1 rows)
                 (str ''TABLE: Invoice Line Items'' @ [10] @ replicate 50 61 @ [10]))"

definition create_table_chunk :: "table \<Rightarrow> InvoiceChunk" where
  "create_table_chunk tb =
     \<lparr>content = table_text tb, chunk_type = ''line_items'', elements = [],
      bbox = (case tb_bbox tb of None \<Rightarrow> (0, 0, 0, 0) | Some b \<Rightarrow> b),
      page_number = (case tb_page tb of None \<Rightarrow> 1 | Some n \<Rightarrow> n),
      confidence = Fin 0.9\<rparr>"

subsection \<open>The top-level operation\<close>

text \<open>The body of the loop over \<^verbatim>\<open>enumerate(pages)\<close>, with its inner loop over the groups.\<close>

definition add_page_chunks :: "nat \<times> page \<Rightarrow> InvoiceChunk list \<Rightarrow> InvoiceChunk list" where
  "add_page_chunks np chunks =
     (case np of (page_num, pg) \<Rightarrow>
        let els = (case pg_elements pg of None \<Rightarrow> [] | Some es \<Rightarrow> es);
            adaptive_groups = adaptive_spatial_grouping els
        in fold (\<lambda>region_type chunks.
                   if adaptive_groups region_type \<noteq> []
                   then chunks @ [create_chunk_from_elements (adaptive_groups region_type)
                                    region_type (int page_num + 1)]
                   else chunks)
             chunk_types chunks)"

definition chunk_invoice_spatially :: "page list \<Rightarrow> table list \<Rightarrow> InvoiceChunk list" where
  "chunk_invoice_spatially pages tables =
     (let chunks = fold add_page_chunks (enumerate 0 pages) []
      in fold (\<lambda>tb chunks. chunks @ [create_table_chunk tb]) tables chunks)"

definition chunk_invoice_extraction :: "extraction_result \<Rightarrow> InvoiceChunk list" where
  "chunk_invoice_extraction r =
     (let pages = (case er_text_extraction r of None \<Rightarrow> []
                   | Some te \<Rightarrow> (case te_pages te of None \<Rightarrow> [] | Some ps \<Rightarrow> ps));
          tables = (case er_table_extraction r of None \<Rightarrow> []
                    | Some te \<Rightarrow> (case te_tables te of None \<Rightarrow> [] | Some ts \<Rightarrow> ts))
      in chunk_invoice_spatially pages tables)"

subsection \<open>Merging chunks\<close>

definition should_merge_chunks :: "InvoiceChunk \<Rightarrow> InvoiceChunk \<Rightarrow> bool" where
  "should_merge_chunks chunk1 chunk2 =
     (if chunk_type chunk1 = ''line_items_header'' \<and> chunk_type chunk2 = ''table_data'' then True
      else if page_number chunk1 = page_number chunk2 \<and>
              \<bar>b3 (bbox chunk1) - b1 (bbox chunk2)\<bar> < 30 then True
      else False)"

definition merge_two_chunks :: "InvoiceChunk \<Rightarrow> InvoiceChunk \<Rightarrow> InvoiceChunk" where
  "merge_two_chunks chunk1 chunk2 =
     \<lparr>content = content chunk1 @ [10] @ content chunk2,
      chunk_type =
        (if chunk_type chunk1 = ''line_items_header'' \<and> chunk_type chunk2 = ''table_data''
         then ''line_items''
         else if fl_less (confidence chunk2) (confidence chunk1) then chunk_type chunk1
         else chunk_type chunk2),
      elements = elements chunk1 @ elements chunk2,
      bbox = (min (b0 (bbox chunk1)) (b0 (bbox chunk2)), min (b1 (bbox chunk1)) (b1 (bbox chunk2)),
              max (b2 (bbox chunk1)) (b2 (bbox chunk2)), max (b3 (bbox chunk1)) (b3 (bbox chunk2))),
      page_number = page_number chunk1,
      confidence = py_max (confidence chunk1) (confidence chunk2)\<rparr>"

text \<open>The \<^verbatim>\<open>while i < len(chunks)\<close> loop of \<^verbatim>\<open>_merge_related_chunks\<close>.\<close>

function merge_loop :: "InvoiceChunk list \<Rightarrow> nat \<Rightarrow> InvoiceChunk list \<Rightarrow> InvoiceChunk list" where
  "merge_loop chunks i merged_chunks =
     (if i < length chunks then
        (if i + 1 < length chunks \<and> should_merge_chunks (chunks ! i) (chunks ! (i + 1))
         then merge_loop chunks (i + 2)
                (merged_chunks @ [merge_two_chunks (chunks ! i) (chunks ! (i + 1))])
         else merge_loop chunks (i + 1) (merged_chunks @ [chunks ! i]))
      else merged_chunks)"
  by pat_completeness auto
termination
  by (relation "measure (\<lambda>(chunks, i, merged_chunks). length chunks - i)") auto

declare merge_loop.simps [simp del]

definition merge_related_chunks :: "InvoiceChunk list \<Rightarrow> InvoiceChunk list" where
  "merge_related_chunks chunks = merge_loop chunks 0 []"

subsection \<open>Summary\<close>

record confidence_buckets =
  high :: nat
  medium :: nat
  low :: nat

record chunk_summary =
  total_chunks :: nat
  chunk_type_counts :: "string \<rightharpoonup> nat"
  average_chunk_size :: real
  chunks_by_confidence :: confidence_buckets

text \<open>The loop of \<^verbatim>\<open>get_chunk_summary\<close>, on the dictionary of counts and the total length.\<close>

definition count_chunk :: "InvoiceChunk \<Rightarrow> (string \<rightharpoonup> nat) \<times> nat \<Rightarrow> (string \<rightharpoonup> nat) \<times> nat" where
  "count_chunk chunk acc =
     (case acc of (ctypes, total_content_length) \<Rightarrow>
        (ctypes(chunk_type chunk \<mapsto>
           (case ctypes (chunk_type chunk) of None \<Rightarrow> 0 | Some n \<Rightarrow> n) + 1),
         total_content_length + length (content chunk)))"

definition get_chunk_summary :: "InvoiceChunk list \<Rightarrow> chunk_summary" where
  "get_chunk_summary chunks =
     (case fold count_chunk chunks (Map.empty, 0) of (ctypes, total_content_length) \<Rightarrow>
        \<lparr>total_chunks = length chunks,
         chunk_type_counts = ctypes,
         average_chunk_size =
           (if chunks \<noteq> [] then real total_content_length / real (length chunks) else 0),
         chunks_by_confidence =
           \<lparr>high = length (filter (\<lambda>c. fl_le (Fin 0.8) (confidence c)) chunks),
            medium =
              length (filter (\<lambda>c. fl_le (Fin 0.5) (confidence c) \<and>
                                   fl_less (confidence c) (Fin 0.8)) chunks),
            low = length (filter (\<lambda>c. fl_less (confidence c) (Fin 0.5)) chunks)\<rparr>\<rparr>)"

section \<open>The normalizer: position names and table structure\<close>

text \<open>
  Here page elements are read with \<^verbatim>\<open>el["text"]\<close>, \<^verbatim>\<open>el["bbox"]\<close> and \<^verbatim>\<open>el["page"]\<close>, so
  these keys are present. A position name from the table has the keys \<^verbatim>\<open>name\<close> and
  \<^verbatim>\<open>source\<close>; one from the content has \<^verbatim>\<open>bbox\<close> and \<^verbatim>\<open>page\<close> too.
\<close>

record text_element =
  ne_text :: pystr
  ne_bbox :: bbox
  ne_page :: int

record text_page =
  np_elements :: "text_element list"

record position =
  pn_name :: pystr
  pn_source :: string
  pn_bbox :: "bbox option"
  pn_page :: "int option"

record table_item =
  position_name :: "pystr option"
  table_data :: "pystr \<rightharpoonup> pystr"
  raw_row :: "pystr list"

record table_format =
  tf_type :: string
  columns :: nat
  item_count :: nat
  has_summary :: bool

record table_structure =
  headers :: "pystr list"
  items :: "table_item list"
  summary :: "pystr list list"
  table_format :: table_format

text \<open>The euro sign U+20AC, the percent sign and the comma, as one-character strings.\<close>

definition euro :: pystr where "euro = [8364]"
definition percent :: pystr where "percent = str ''%''"
definition comma :: pystr where "comma = str '',''"

definition description_keywords :: "pystr list" where
  "description_keywords =
     map str [''beschreibung'', ''description'', ''artikel'', ''item'', ''position'']"

text \<open>The loop that looks for the description column, from index \<open>i\<close> on.\<close>

fun find_desc_col :: "nat \<Rightarrow> pystr list \<Rightarrow> nat option" where
  "find_desc_col i [] = None"
| "find_desc_col i (header # rest) =
     (if list_ex (\<lambda>keyword. contains keyword (lower header)) description_keywords then Some i
      else find_desc_col (i + 1) rest)"

text \<open>Method 1: the loop over the data rows.\<close>

definition add_table_position :: "nat option \<Rightarrow> pystr list \<Rightarrow> position list \<Rightarrow> position list" where
  "add_table_position desc_col_idx row position_names =
     (case desc_col_idx of
        None \<Rightarrow> position_names
      | Some j \<Rightarrow>
          if length row > j then
            (let desc = strip (row ! j)
             in if desc \<noteq> [] \<and> \<not> list_ex (\<lambda>c. contains c desc) [euro, percent, comma]
                then position_names @
                       [\<lparr>pn_name = desc, pn_source = ''table_description_column'',
                         pn_bbox = None, pn_page = None\<rparr>]
                else position_names)
          else position_names)"

definition table_positions :: "pystr list list \<Rightarrow> position list \<Rightarrow> position list" where
  "table_positions table_rows position_names =
     (if table_rows \<noteq> [] then
        fold (add_table_position (find_desc_col 0 (hd table_rows))) (tl table_rows) position_names
      else position_names)"

text \<open>\<^verbatim>\<open>t.replace(',', '').replace('.', '').isdigit()\<close>\<close>

definition is_number_text :: "pystr \<Rightarrow> bool" where
  "is_number_text t = str_isdigit (remove_char 46 (remove_char 44 t))"

text \<open>Method 2: the body of the loop over \<^verbatim>\<open>enumerate(elements)\<close> of one page.\<close>

definition add_content_position ::
  "text_element list \<Rightarrow> nat \<times> text_element \<Rightarrow> position list \<Rightarrow> position list" where
  "add_content_position els iel position_names =
     (case iel of (i, el) \<Rightarrow>
        let text = strip (ne_text el) in
        if text = [] \<or> list_ex (\<lambda>c. contains c text) [euro, percent] \<or> is_number_text text
        then position_names
        else
          (let next_elements = take 3 (drop (i + 1) els);
               has_numeric_following =
                 list_ex (\<lambda>next_el.
                     list_ex (\<lambda>c. contains c (ne_text next_el)) [euro, percent, comma] \<or>
                     is_number_text (ne_text next_el))
                   next_elements;
               is_likely_position =
                 (length (split_ws text) \<ge> 2 \<and> length text > 5 \<and> \<not> str_isupper text \<and>
                  has_numeric_following)
           in if is_likely_position
              then position_names @
                     [\<lparr>pn_name = text, pn_source = ''content_analysis'',
                       pn_bbox = Some (ne_bbox el), pn_page = Some (ne_page el)\<rparr>]
              else position_names))"

definition add_page_positions :: "text_page \<Rightarrow> position list \<Rightarrow> position list" where
  "add_page_positions pg position_names =
     (let els = sort_key (\<lambda>e. b1 (ne_bbox e)) (np_elements pg)
      in fold (add_content_position els) (enumerate 0 els) position_names)"

text \<open>The position names of both methods, before duplicates are removed.\<close>

definition collect_position_names :: "text_page list \<Rightarrow> pystr list list \<Rightarrow> position list" where
  "collect_position_names pages table_rows =
     fold add_page_positions pages (table_positions table_rows [])"

text \<open>The last loop, on the set \<^verbatim>\<open>seen\<close> and the list \<^verbatim>\<open>unique_positions\<close>.\<close>

definition keep_unseen :: "position \<Rightarrow> pystr set \<times> position list \<Rightarrow> pystr set \<times> position list" where
  "keep_unseen pos acc =
     (case acc of (seen, unique_positions) \<Rightarrow>
        if pn_name pos \<notin> seen then (insert (pn_name pos) seen, unique_positions @ [pos])
        else (seen, unique_positions))"

definition extract_position_names :: "text_page list \<Rightarrow> pystr list list \<Rightarrow> position list" where
  "extract_position_names pages table_rows =
     snd (fold keep_unseen (collect_position_names pages table_rows) ({}, []))"

definition summary_keywords :: "pystr list" where
  "summary_keywords =
     map str [''summe'', ''steuer'', ''tax'', ''total'', ''gesamt'', ''zwischensumme'',
              ''umsatzsteuer'']"

definition is_summary :: "pystr list \<Rightarrow> bool" where
  "is_summary row =
     list_ex (\<lambda>keyword. contains keyword (lower (join (str '' '') row))) summary_keywords"

text \<open>The loop that separates item rows from summary rows.\<close>

definition separate_row :: "pystr list \<Rightarrow> pystr list list \<times> pystr list list \<Rightarrow> pystr list list \<times> pystr list list"
  where
  "separate_row row acc =
     (case acc of (item_rows, summary_rows) \<Rightarrow>
        if is_summary row then (item_rows, summary_rows @ [row])
        else (item_rows @ [row], summary_rows))"

text \<open>The inner loop that fills \<^verbatim>\<open>item_data\<close> from the headers.\<close>

definition add_cell :: "pystr list \<Rightarrow> nat \<times> pystr \<Rightarrow> (pystr \<rightharpoonup> pystr) \<Rightarrow> (pystr \<rightharpoonup> pystr)" where
  "add_cell item_row jh item_data =
     (case jh of (j, header) \<Rightarrow>
        if j < length item_row then item_data(header \<mapsto> item_row ! j) else item_data)"

text \<open>
  The body of the loop over \<^verbatim>\<open>enumerate(item_rows)\<close>: the item that it appends to
  \<^verbatim>\<open>matched_items\<close>.
\<close>

definition make_item :: "pystr list \<Rightarrow> position list \<Rightarrow> nat \<times> pystr list \<Rightarrow> table_item" where
  "make_item hdrs position_names ir =
     (case ir of (i, item_row) \<Rightarrow>
        let pname =
              (if i < length position_names then
                 (let pos_names =
                        map pn_name
                          (filter (\<lambda>p. \<not> contains (str ''summe'') (lower (pn_name p)))
                             position_names)
                  in if i < length pos_names then Some (pos_names ! i) else None)
               else None);
            item_data = fold (add_cell item_row) (enumerate 0 hdrs) Map.empty
        in \<lparr>position_name = pname, table_data = item_data, raw_row = item_row\<rparr>)"

definition reconstruct_table_structure ::
  "pystr list list \<Rightarrow> position list \<Rightarrow> table_structure option" where
  "reconstruct_table_structure table_rows position_names =
     (if table_rows = [] then None
      else
        (let hdrs = hd table_rows;
             data_rows = (if length table_rows > 1 then tl table_rows else []);
             (item_rows, summary_rows) = fold separate_row data_rows ([], []);
             matched_items =
               fold (\<lambda>ir matched_items. matched_items @ [make_item hdrs position_names ir])
                 (enumerate 0 item_rows) []
         in Some \<lparr>headers = hdrs, items = matched_items, summary = summary_rows,
                  table_format =
                    \<lparr>tf_type = ''invoice_table'', columns = length hdrs,
                     item_count = length matched_items,
                     has_summary = (length summary_rows > 0)\<rparr>\<rparr>))"

section \<open>Notions used in the statements\<close>

text \<open>
  The sequence of chunks that the builder produces, said without loops: for each page in
  order, one chunk for each non-empty group in the order of \<open>chunk_types\<close>; then one chunk
  for each table.
\<close>

definition page_group_chunks :: "nat \<times> page \<Rightarrow> InvoiceChunk list" where
  "page_group_chunks np =
     (case np of (page_num, pg) \<Rightarrow>
        map (\<lambda>region_type.
               create_chunk_from_elements
                 (adaptive_spatial_grouping (case pg_elements pg of None \<Rightarrow> [] | Some es \<Rightarrow> es)
                    region_type)
                 region_type (int page_num + 1))
          (filter (\<lambda>region_type.
                     adaptive_spatial_grouping (case pg_elements pg of None \<Rightarrow> [] | Some es \<Rightarrow> es)
                       region_type \<noteq> [])
             chunk_types))"

definition built_chunks :: "page list \<Rightarrow> table list \<Rightarrow> InvoiceChunk list" where
  "built_chunks pages tables =
     concat (map page_group_chunks (enumerate 0 pages)) @ map create_table_chunk tables"

text \<open>The elements that the first loop of the grouping puts in \<^verbatim>\<open>totals_elements\<close>.\<close>

definition sent_to_totals :: "element \<Rightarrow> bool" where
  "sent_to_totals e \<longleftrightarrow>
     list_ex (\<lambda>pattern. contains pattern (lower (get_text e))) totals_keywords \<or>
     (re_search False money_amount_rx (lower (get_text e)) \<and>
      list_ex (\<lambda>w. contains w (lower (get_text e))) [currency_marker] \<and>
      b0 (get_bbox e) > 400)"

text \<open>
  The branch of \<^verbatim>\<open>_parse_line_item_details\<close> that a sub-line takes: the first of the
  four tests that succeeds.
\<close>

definition is_quantity_line :: "pystr \<Rightarrow> bool" where
  "is_quantity_line line \<longleftrightarrow> re_fullmatch False quantity_rx line"

definition is_unit_line :: "pystr \<Rightarrow> bool" where
  "is_unit_line line \<longleftrightarrow> \<not> is_quantity_line line \<and> re_fullmatch True unit_rx line"

definition is_price_line :: "pystr \<Rightarrow> bool" where
  "is_price_line line \<longleftrightarrow>
     \<not> is_quantity_line line \<and> \<not> re_fullmatch True unit_rx line \<and> re_search False price_rx line"

definition is_tax_line :: "pystr \<Rightarrow> bool" where
  "is_tax_line line \<longleftrightarrow>
     \<not> is_quantity_line line \<and> \<not> re_fullmatch True unit_rx line \<and>
     \<not> re_search False price_rx line \<and> re_search False percent_rx line"

definition first_of :: "'a list \<Rightarrow> 'a option" where
  "first_of xs = (case xs of [] \<Rightarrow> None | x # rest \<Rightarrow> Some x)"

definition last_of :: "'a list \<Rightarrow> 'a option" where
  "last_of xs = (if xs = [] then None else Some (last xs))"

text \<open>
  The position names left when every name that contains one of the summary keywords is
  filtered out, as the specification words the matching of names to item rows.
\<close>

definition names_without_summary_keyword :: "position list \<Rightarrow> pystr list" where
  "names_without_summary_keyword position_names =
     map pn_name
       (filter (\<lambda>p. \<not> list_ex (\<lambda>keyword. contains keyword (lower (pn_name p))) summary_keywords)
          position_names)"

subsection \<open>Concrete inputs\<close>

text \<open>Two tables on page 1, the second 20 units below the first.\<close>

definition two_tables :: "table list" where
  "two_tables =
     [\<lparr>tb_data = Some [[str ''Consulting'', str ''2'']], tb_bbox = Some (50, 300, 500, 400),
       tb_page = Some 1\<rparr>,
      \<lparr>tb_data = Some [[str ''Travel'', str ''1'']], tb_bbox = Some (50, 420, 500, 480),
       tb_page = Some 1\<rparr>]"

text \<open>A page with one line near its bottom edge that no content pattern matches.\<close>

definition closing_line :: element where
  "closing_line =
     \<lparr>el_text = Some (str ''Thank you''), el_bbox = Some (50, 100, 300, 112),
      el_font_info = Some \<lparr>font_name = Some (str ''Helvetica''), font_size = Some 10\<rparr>\<rparr>"

definition closing_page :: page where
  "closing_page = \<lparr>pg_elements = Some [closing_line]\<rparr>"

text \<open>A line that names a total and also has the shape of a line item.\<close>

definition total_line :: element where
  "total_line =
     \<lparr>el_text = Some (str ''Total Qty 2 x 3''), el_bbox = Some (50, 300, 200, 312),
      el_font_info = None\<rparr>"

text \<open>A details cell with two quantities, two units and two tax rates.\<close>

definition repeated_details :: pystr where
  "repeated_details =
     str ''1'' @ [10] @ str ''Std.'' @ [10] @ str ''19%'' @ [10] @
     str ''2'' @ [10] @ str ''Stk.'' @ [10] @ str ''7%''"

text \<open>A details cell with a quantity, a unit, a price, a tax rate and a line total.\<close>

definition full_details :: pystr where
  "full_details =
     str ''10,00'' @ [10] @ str ''Std.'' @ [10] @ str ''80,00 '' @ currency_marker @ [10] @
     str ''19%'' @ [10] @ str ''800,00 '' @ currency_marker"

text \<open>Three chunks, one for each confidence bucket, and a chunk whose confidence is NaN.\<close>

definition bucket_chunks :: "InvoiceChunk list" where
  "bucket_chunks =
     [\<lparr>content = str ''Invoice 12'', chunk_type = ''header'', elements = [],
       bbox = (50, 700, 300, 720), page_number = 1, confidence = Fin 0.9\<rparr>,
      \<lparr>content = str ''Widget'', chunk_type = ''line_items'', elements = [],
       bbox = (50, 400, 300, 420), page_number = 1, confidence = Fin 0.6\<rparr>,
      \<lparr>content = str ''Thanks'', chunk_type = ''footer'', elements = [],
       bbox = (50, 100, 300, 120), page_number = 1, confidence = Fin 0.3\<rparr>]"

definition nan_chunk :: InvoiceChunk where
  "nan_chunk =
     \<lparr>content = str ''Widget'', chunk_type = ''table_data'', elements = [],
      bbox = (50, 400, 300, 420), page_number = 1, confidence = NaN\<rparr>"

text \<open>A table whose second data row is a summary row named \<^verbatim>\<open>Total\<close>.\<close>

definition sections_table :: "pystr list list" where
  "sections_table =
     [[str ''Description'', str ''Qty''],
      [str ''Widget'', str ''2''],
      [str ''Total'', str ''2''],
      [str ''Gadget'', str ''3'']]"

section \<open>The matcher decides the language of a pattern\<close>

lemma Nil_in_conc: "[] \<in> conc A B \<longleftrightarrow> [] \<in> A \<and> [] \<in> B"
  by (auto simp add: conc_def)

lemma nullable_lang: "nullable r \<longleftrightarrow> [] \<in> lang ic r"
  by (induction r) (auto simp add: Nil_in_conc intro: star.star_Nil)

lemma lang_seq: "lang ic (seq r s) = conc (lang ic r) (lang ic s)"
  by (auto simp add: seq_def conc_def)

lemma lang_alt: "lang ic (alt r s) = lang ic r \<union> lang ic s"
  by (auto simp add: alt_def)

lemma Cons_in_conc:
  "c # w \<in> conc A B \<longleftrightarrow>
     (\<exists>u v. w = u @ v \<and> c # u \<in> A \<and> v \<in> B) \<or> ([] \<in> A \<and> c # w \<in> B)"
proof
  assume "c # w \<in> conc A B"
  then obtain u v where uv: "c # w = u @ v" "u \<in> A" "v \<in> B"
    by (auto simp add: conc_def)
  show "(\<exists>u v. w = u @ v \<and> c # u \<in> A \<and> v \<in> B) \<or> ([] \<in> A \<and> c # w \<in> B)"
  proof (cases u)
    case Nil
    with uv show ?thesis by simp
  next
    case (Cons a u')
    with uv have "w = u' @ v" "c # u' \<in> A" by auto
    with uv(3) show ?thesis by blast
  qed
next
  assume "(\<exists>u v. w = u @ v \<and> c # u \<in> A \<and> v \<in> B) \<or> ([] \<in> A \<and> c # w \<in> B)"
  then show "c # w \<in> conc A B"
  proof
    assume "\<exists>u v. w = u @ v \<and> c # u \<in> A \<and> v \<in> B"
    then obtain u v where "w = u @ v" "c # u \<in> A" "v \<in> B" by blast
    then have "c # w = (c # u) @ v" by simp
    with \<open>c # u \<in> A\<close> \<open>v \<in> B\<close> show ?thesis unfolding conc_def by blast
  next
    assume "[] \<in> A \<and> c # w \<in> B"
    then have "c # w = [] @ (c # w)" "[] \<in> A" "c # w \<in> B" by simp_all
    then show ?thesis unfolding conc_def by blast
  qed
qed

lemma star_Cons_split:
  assumes "x \<in> star A" and "x = c # w"
  shows "\<exists>u v. w = u @ v \<and> c # u \<in> A \<and> v \<in> star A"
  using assms
proof (induction arbitrary: w rule: star.induct)
  case star_Nil
  then show ?case by simp
next
  case (star_step u v)
  show ?case
  proof (cases u)
    case Nil
    with star_step show ?thesis by simp
  next
    case (Cons a u')
    with star_step.prems have "w = u' @ v" "a = c" by auto
    with Cons star_step.hyps show ?thesis by blast
  qed
qed

lemma Cons_in_star:
  "c # w \<in> star A \<longleftrightarrow> (\<exists>u v. w = u @ v \<and> c # u \<in> A \<and> v \<in> star A)"
proof
  assume "c # w \<in> star A"
  from star_Cons_split [OF this refl] show "\<exists>u v. w = u @ v \<and> c # u \<in> A \<and> v \<in> star A" .
next
  assume "\<exists>u v. w = u @ v \<and> c # u \<in> A \<and> v \<in> star A"
  then obtain u v where "w = u @ v" "c # u \<in> A" "v \<in> star A" by blast
  then have "(c # u) @ v \<in> star A" and "c # w = (c # u) @ v"
    using star.star_step [of "c # u" A v] by simp_all
  then show "c # w \<in> star A" by simp
qed

lemma deriv_lang: "w \<in> lang ic (deriv ic c r) \<longleftrightarrow> c # w \<in> lang ic r"
proof (induction r arbitrary: w)
  case (Seq r s)
  have "w \<in> lang ic (deriv ic c (Seq r s)) \<longleftrightarrow>
      w \<in> conc (lang ic (deriv ic c r)) (lang ic s) \<or> (nullable r \<and> w \<in> lang ic (deriv ic c s))"
    by (simp add: lang_alt lang_seq)
  also have "\<dots> \<longleftrightarrow> (\<exists>u v. w = u @ v \<and> c # u \<in> lang ic r \<and> v \<in> lang ic s) \<or>
      ([] \<in> lang ic r \<and> c # w \<in> lang ic s)"
    using Seq nullable_lang [of r ic] by (auto simp add: conc_def)
  also have "\<dots> \<longleftrightarrow> c # w \<in> lang ic (Seq r s)"
    by (simp add: Cons_in_conc)
  finally show ?case .
next
  case (Star r)
  have "w \<in> lang ic (deriv ic c (Star r)) \<longleftrightarrow>
      (\<exists>u v. w = u @ v \<and> u \<in> lang ic (deriv ic c r) \<and> v \<in> star (lang ic r))"
    by (auto simp add: lang_seq conc_def)
  also have "\<dots> \<longleftrightarrow> (\<exists>u v. w = u @ v \<and> c # u \<in> lang ic r \<and> v \<in> star (lang ic r))"
    using Star by simp
  also have "\<dots> \<longleftrightarrow> c # w \<in> lang ic (Star r)"
    by (simp add: Cons_in_star)
  finally show ?case .
qed (auto simp add: lang_alt)

lemma re_fullmatch_lang: "re_fullmatch ic r w \<longleftrightarrow> w \<in> lang ic r"
proof (induction w arbitrary: r)
  case Nil
  show ?case by (simp add: re_fullmatch_def nullable_lang [of r ic])
next
  case (Cons c w)
  have "re_fullmatch ic r (c # w) = re_fullmatch ic (deriv ic c r) w"
    by (simp add: re_fullmatch_def)
  with Cons show ?case by (simp add: deriv_lang)
qed

lemma prefix_match_lang:
  "prefix_match ic r w \<longleftrightarrow> (\<exists>u v. w = u @ v \<and> u \<in> lang ic r)"
proof (induction w arbitrary: r)
  case Nil
  show ?case by (simp add: nullable_lang [of r ic])
next
  case (Cons c w)
  have never: "deriv ic c r = Never \<Longrightarrow> \<not> (\<exists>u v. w = u @ v \<and> u \<in> lang ic (deriv ic c r))"
    by simp
  have "prefix_match ic r (c # w) \<longleftrightarrow>
      [] \<in> lang ic r \<or> (\<exists>u v. w = u @ v \<and> u \<in> lang ic (deriv ic c r))"
    using Cons [of "deriv ic c r"] never nullable_lang [of r ic] by auto
  also have "\<dots> \<longleftrightarrow> [] \<in> lang ic r \<or> (\<exists>u v. w = u @ v \<and> c # u \<in> lang ic r)"
    by (simp add: deriv_lang)
  also have "\<dots> \<longleftrightarrow> (\<exists>u v. c # w = u @ v \<and> u \<in> lang ic r)"
  proof
    assume "[] \<in> lang ic r \<or> (\<exists>u v. w = u @ v \<and> c # u \<in> lang ic r)"
    then show "\<exists>u v. c # w = u @ v \<and> u \<in> lang ic r"
    proof
      assume "[] \<in> lang ic r"
      then have "c # w = [] @ (c # w) \<and> [] \<in> lang ic r" by simp
      then show ?thesis by blast
    next
      assume "\<exists>u v. w = u @ v \<and> c # u \<in> lang ic r"
      then obtain u v where "w = u @ v" "c # u \<in> lang ic r" by blast
      then have "c # w = (c # u) @ v \<and> c # u \<in> lang ic r" by simp
      then show ?thesis by blast
    qed
  next
    assume "\<exists>u v. c # w = u @ v \<and> u \<in> lang ic r"
    then obtain u v where uv: "c # w = u @ v" "u \<in> lang ic r" by blast
    show "[] \<in> lang ic r \<or> (\<exists>u v. w = u @ v \<and> c # u \<in> lang ic r)"
    proof (cases u)
      case Nil
      with uv show ?thesis by simp
    next
      case (Cons a u')
      with uv have "w = u' @ v" "c # u' \<in> lang ic r" by auto
      then show ?thesis by blast
    qed
  qed
  finally show ?case .
qed

lemma re_search_lang:
  "re_search ic r w \<longleftrightarrow> (\<exists>p u q. w = p @ u @ q \<and> u \<in> lang ic r)"
proof (induction w)
  case Nil
  show ?case by (simp add: nullable_lang [of r ic])
next
  case (Cons c w)
  have "re_search ic r (c # w) \<longleftrightarrow>
      (\<exists>u v. c # w = u @ v \<and> u \<in> lang ic r) \<or> (\<exists>p u q. w = p @ u @ q \<and> u \<in> lang ic r)"
    using Cons prefix_match_lang [of ic r "c # w"] by simp
  also have "\<dots> \<longleftrightarrow> (\<exists>p u q. c # w = p @ u @ q \<and> u \<in> lang ic r)"
  proof
    assume "(\<exists>u v. c # w = u @ v \<and> u \<in> lang ic r) \<or> (\<exists>p u q. w = p @ u @ q \<and> u \<in> lang ic r)"
    then show "\<exists>p u q. c # w = p @ u @ q \<and> u \<in> lang ic r"
    proof
      assume "\<exists>u v. c # w = u @ v \<and> u \<in> lang ic r"
      then obtain u v where "c # w = [] @ u @ v" "u \<in> lang ic r" by auto
      then show ?thesis by blast
    next
      assume "\<exists>p u q. w = p @ u @ q \<and> u \<in> lang ic r"
      then obtain p u q where "c # w = (c # p) @ u @ q" "u \<in> lang ic r" by auto
      then show ?thesis by blast
    qed
  next
    assume "\<exists>p u q. c # w = p @ u @ q \<and> u \<in> lang ic r"
    then obtain p u q where puq: "c # w = p @ u @ q" "u \<in> lang ic r" by blast
    show "(\<exists>u v. c # w = u @ v \<and> u \<in> lang ic r) \<or> (\<exists>p u q. w = p @ u @ q \<and> u \<in> lang ic r)"
    proof (cases p)
      case Nil
      with puq show ?thesis by auto
    next
      case (Cons a p')
      with puq have "w = p' @ u @ q" by simp
      with puq(2) show ?thesis by blast
    qed
  qed
  finally show ?case .
qed

text \<open>
  So \<open>re_fullmatch\<close> holds when the whole text is in the language of the pattern, and
  \<open>re_search\<close> when some substring of the text is.
\<close>

section \<open>Properties of the chunker\<close>

subsection \<open>Loops that append\<close>

lemma fold_append_concat:
  assumes "\<And>x acc. f x acc = acc @ f x []"
  shows "fold f xs acc = acc @ concat (map (\<lambda>x. f x []) xs)"
proof (induction xs arbitrary: acc)
  case Nil
  show ?case by simp
next
  case (Cons x xs)
  have "fold f (x # xs) acc = fold f xs (f x acc)" by simp
  also have "\<dots> = f x acc @ concat (map (\<lambda>x. f x []) xs)" by (rule Cons.IH)
  also have "f x acc = acc @ f x []" by (rule assms)
  finally show ?case by simp
qed

lemma fold_snoc_map: "fold (\<lambda>x acc. acc @ [f x]) xs acc = acc @ map f xs"
  by (induction xs arbitrary: acc) simp_all

lemma fold_snoc_if:
  "fold (\<lambda>x acc. if P x then acc @ [f x] else acc) xs acc = acc @ map f (filter P xs)"
  by (induction xs arbitrary: acc) simp_all


subsection \<open>The merging pass never lengthens the sequence\<close>

lemma merge_loop_length:
  "length (merge_loop chunks i merged) \<le> length merged + (length chunks - i)"
proof (induction chunks i merged rule: merge_loop.induct)
  case (1 chunks i merged)
  show ?case
  proof (cases "i < length chunks")
    case False
    then show ?thesis by (subst merge_loop.simps) simp
  next
    case inb: True
    show ?thesis
    proof (cases "i + 1 < length chunks \<and> should_merge_chunks (chunks ! i) (chunks ! (i + 1))")
      case True
      let ?m = "merged @ [merge_two_chunks (chunks ! i) (chunks ! (i + 1))]"
      from inb True "1.IH"(1)
      have "length (merge_loop chunks (i + 2) ?m) \<le> length ?m + (length chunks - (i + 2))"
        by blast
      moreover from inb True
      have "merge_loop chunks i merged = merge_loop chunks (i + 2) ?m"
        by (subst merge_loop.simps) simp
      ultimately have "length (merge_loop chunks i merged)
          \<le> length ?m + (length chunks - (i + 2))"
        by (simp only:)
      moreover have "length ?m = length merged + 1" by simp
      ultimately show ?thesis using True by linarith
    next
      case False
      let ?m = "merged @ [chunks ! i]"
      from inb False "1.IH"(2)
      have "length (merge_loop chunks (i + 1) ?m) \<le> length ?m + (length chunks - (i + 1))"
        by blast
      moreover from inb False
      have "merge_loop chunks i merged = merge_loop chunks (i + 1) ?m"
        by (subst merge_loop.simps) auto
      ultimately have "length (merge_loop chunks i merged)
          \<le> length ?m + (length chunks - (i + 1))"
        by (simp only:)
      moreover have "length ?m = length merged + 1" by simp
      ultimately show ?thesis using inb by linarith
    qed
  qed
qed

text \<open>
  Claim C8: for every chunk sequence, the merging pass \<^verbatim>\<open>_merge_related_chunks\<close> returns a
  sequence that is at most as long as its input.
\<close>

theorem merge_related_chunks_length:
  "length (merge_related_chunks chunks) \<le> length chunks"
  using merge_loop_length [of chunks 0 "[]"] by (simp add: merge_related_chunks_def)

subsection \<open>The summary\<close>

lemma one_bucket:
  "x \<noteq> NaN \<Longrightarrow>
     of_bool (fl_le (Fin 0.8) x) + of_bool (fl_le (Fin 0.5) x \<and> fl_less x (Fin 0.8)) +
     of_bool (fl_less x (Fin 0.5)) = (1::nat)"
  by (cases x) auto

lemma bucket_partition:
  "list_all (\<lambda>c. confidence c \<noteq> NaN) chunks \<Longrightarrow>
   length (filter (\<lambda>c. fl_le (Fin 0.8) (confidence c)) chunks) +
   length (filter (\<lambda>c. fl_le (Fin 0.5) (confidence c) \<and> fl_less (confidence c) (Fin 0.8)) chunks) +
   length (filter (\<lambda>c. fl_less (confidence c) (Fin 0.5)) chunks) = length chunks"
proof (induction chunks)
  case Nil
  show ?case by simp
next
  case (Cons c chunks)
  then have "confidence c \<noteq> NaN" by simp
  then have "(fl_le (Fin 0.8) (confidence c) \<and> \<not> fl_less (confidence c) (Fin 0.8) \<and>
              \<not> fl_less (confidence c) (Fin 0.5)) \<or>
             (\<not> fl_le (Fin 0.8) (confidence c) \<and> fl_le (Fin 0.5) (confidence c) \<and>
              fl_less (confidence c) (Fin 0.8) \<and> \<not> fl_less (confidence c) (Fin 0.5)) \<or>
             (\<not> fl_le (Fin 0.8) (confidence c) \<and> \<not> fl_le (Fin 0.5) (confidence c) \<and>
              fl_less (confidence c) (Fin 0.5))"
    by (cases "confidence c") auto
  with Cons show ?case by auto
qed

lemma fold_count_chunk_length:
  "snd (fold count_chunk chunks (m, n)) = n + sum_list (map (\<lambda>c. length (content c)) chunks)"
  by (induction chunks arbitrary: m n) (simp_all add: count_chunk_def)

text \<open>
  Claim C10, as stated, fails: \<^verbatim>\<open>get_chunk_summary\<close> counts a chunk whose confidence is
  NaN in none of the three buckets, since every comparison with NaN is false. For the
  list of that one chunk the three counts are 0 and the number of chunks is 1.
\<close>

theorem nan_in_no_bucket_counterexample:
  "total_chunks (get_chunk_summary [nan_chunk]) = 1 \<and>
   high (chunks_by_confidence (get_chunk_summary [nan_chunk])) = 0 \<and>
   medium (chunks_by_confidence (get_chunk_summary [nan_chunk])) = 0 \<and>
   low (chunks_by_confidence (get_chunk_summary [nan_chunk])) = 0 \<and>
   high (chunks_by_confidence (get_chunk_summary [nan_chunk])) +
   medium (chunks_by_confidence (get_chunk_summary [nan_chunk])) +
   low (chunks_by_confidence (get_chunk_summary [nan_chunk])) \<noteq>
     total_chunks (get_chunk_summary [nan_chunk])"
  by (simp add: get_chunk_summary_def nan_chunk_def split: prod.splits)

text \<open>
  Claim C10, amended: \<^verbatim>\<open>get_chunk_summary\<close> is defined on every chunk list. On the empty
  list it reports no chunks and an average size of 0 (the division is guarded); on every
  list it reports the number of chunks and, for a non-empty list, the total content
  length divided by that number. The high count is the number of chunks with confidence
  at least 0.8, the medium count the number with confidence at least 0.5 and below 0.8,
  the low count the number with confidence below 0.5. For every list in which no
  confidence is NaN, each chunk satisfies exactly one of the three conditions, so the
  three counts add up to the number of chunks.
\<close>

theorem get_chunk_summary_buckets:
  "total_chunks (get_chunk_summary []) = 0 \<and>
   average_chunk_size (get_chunk_summary []) = 0 \<and>
   total_chunks (get_chunk_summary chunks) = length chunks \<and>
   average_chunk_size (get_chunk_summary chunks) =
     (if chunks = [] then 0
      else real (sum_list (map (\<lambda>c. length (content c)) chunks)) / real (length chunks)) \<and>
   high (chunks_by_confidence (get_chunk_summary chunks)) =
     length (filter (\<lambda>c. fl_le (Fin 0.8) (confidence c)) chunks) \<and>
   medium (chunks_by_confidence (get_chunk_summary chunks)) =
     length (filter (\<lambda>c. fl_le (Fin 0.5) (confidence c) \<and> fl_less (confidence c) (Fin 0.8))
               chunks) \<and>
   low (chunks_by_confidence (get_chunk_summary chunks)) =
     length (filter (\<lambda>c. fl_less (confidence c) (Fin 0.5)) chunks) \<and>
   (list_all (\<lambda>c. confidence c \<noteq> NaN) chunks \<longrightarrow>
      map (\<lambda>c. of_bool (fl_le (Fin 0.8) (confidence c)) +
                of_bool (fl_le (Fin 0.5) (confidence c) \<and> fl_less (confidence c) (Fin 0.8)) +
                of_bool (fl_less (confidence c) (Fin 0.5))) chunks =
        replicate (length chunks) (1::nat) \<and>
      high (chunks_by_confidence (get_chunk_summary chunks)) +
      medium (chunks_by_confidence (get_chunk_summary chunks)) +
      low (chunks_by_confidence (get_chunk_summary chunks)) =
        total_chunks (get_chunk_summary chunks))"
proof -
  have each: "list_all (\<lambda>c. confidence c \<noteq> NaN) chunks \<Longrightarrow>
      map (\<lambda>c. of_bool (fl_le (Fin 0.8) (confidence c)) +
               of_bool (fl_le (Fin 0.5) (confidence c) \<and> fl_less (confidence c) (Fin 0.8)) +
               of_bool (fl_less (confidence c) (Fin 0.5))) chunks =
       replicate (length chunks) (1::nat)"
  proof (induction chunks)
    case Nil
    show ?case by simp
  next
    case (Cons c chunks)
    then have "confidence c \<noteq> NaN" by simp
    from one_bucket [OF this] Cons show ?case by simp
  qed
  have total: "snd (fold count_chunk chunks (Map.empty, 0)) =
      sum_list (map (\<lambda>c. length (content c)) chunks)"
    by (simp add: fold_count_chunk_length)
  obtain m n where f: "fold count_chunk chunks (Map.empty, 0) = (m, n)"
    by (cases "fold count_chunk chunks (Map.empty, 0)")
  with total have "n = sum_list (map (\<lambda>c. length (content c)) chunks)"
    by simp
  with f have avg: "average_chunk_size (get_chunk_summary chunks) =
       (if chunks = [] then 0
        else real (sum_list (map (\<lambda>c. length (content c)) chunks)) / real (length chunks))"
    by (simp add: get_chunk_summary_def)
  from bucket_partition [of chunks] each avg show ?thesis
    by (simp add: get_chunk_summary_def split: prod.splits)
qed

theorem get_chunk_summary_buckets_witness:
  "list_all (\<lambda>c. confidence c \<noteq> NaN) bucket_chunks \<and>
   total_chunks (get_chunk_summary bucket_chunks) = 3 \<and>
   average_chunk_size (get_chunk_summary bucket_chunks) = 22 / 3 \<and>
   high (chunks_by_confidence (get_chunk_summary bucket_chunks)) = 1 \<and>
   medium (chunks_by_confidence (get_chunk_summary bucket_chunks)) = 1 \<and>
   low (chunks_by_confidence (get_chunk_summary bucket_chunks)) = 1"
proof -
  have h: "list_all (\<lambda>c. confidence c \<noteq> NaN) bucket_chunks"
    by (simp add: bucket_chunks_def)
  have n: "length bucket_chunks = 3"
    by (simp add: bucket_chunks_def)
  have a: "(if bucket_chunks = [] then 0
            else real (sum_list (map (\<lambda>c. length (content c)) bucket_chunks)) /
                 real (length bucket_chunks)) = 22 / 3"
    by (simp add: bucket_chunks_def str_def)
  have hi: "length (filter (\<lambda>c. fl_le (Fin 0.8) (confidence c)) bucket_chunks) = 1"
    by (simp add: bucket_chunks_def)
  have me: "length (filter (\<lambda>c. fl_le (Fin 0.5) (confidence c) \<and>
                                 fl_less (confidence c) (Fin 0.8)) bucket_chunks) = 1"
    by (simp add: bucket_chunks_def)
  have lo: "length (filter (\<lambda>c. fl_less (confidence c) (Fin 0.5)) bucket_chunks) = 1"
    by (simp add: bucket_chunks_def)
  from get_chunk_summary_buckets [of bucket_chunks] h n a hi me lo show ?thesis
    by (simp only: simp_thms)
qed

subsection \<open>Empty input\<close>

lemma adaptive_spatial_grouping_Nil: "adaptive_spatial_grouping [] t = []"
  by (simp add: adaptive_spatial_grouping_def)

lemma add_page_chunks_no_elements:
  "pg_elements pg = None \<or> pg_elements pg = Some [] \<Longrightarrow> add_page_chunks (n, pg) chunks = chunks"
  by (auto simp add: add_page_chunks_def adaptive_spatial_grouping_Nil chunk_types_def)

text \<open>
  Claim C9: with no fragments and no tables the chunker returns the empty chunk sequence,
  and \<^verbatim>\<open>reconstruct_table_structure\<close> on an empty row list returns \<^verbatim>\<open>None\<close>; nothing is
  raised on the way. The same holds for a page without elements, for an extraction result
  without pages and tables, and the position names of empty input are empty.
\<close>

theorem empty_input:
  "chunk_invoice_spatially [] [] = [] \<and>
   chunk_invoice_spatially [\<lparr>pg_elements = Some []\<rparr>] [] = [] \<and>
   chunk_invoice_extraction \<lparr>er_text_extraction = None, er_table_extraction = None\<rparr> = [] \<and>
   reconstruct_table_structure [] position_names = None \<and>
   extract_position_names [] [] = []"
  by (simp add: chunk_invoice_spatially_def chunk_invoice_extraction_def
      add_page_chunks_no_elements reconstruct_table_structure_def extract_position_names_def
      collect_position_names_def table_positions_def)

subsection \<open>What the top-level operation returns\<close>

lemma add_page_chunks_eq: "add_page_chunks np chunks = chunks @ page_group_chunks np"
  by (simp add: add_page_chunks_def page_group_chunks_def Let_def fold_snoc_if split: prod.splits)

lemma fold_add_page_chunks:
  "fold add_page_chunks nps chunks = chunks @ concat (map page_group_chunks nps)"
  by (induction nps arbitrary: chunks) (simp_all add: add_page_chunks_eq)

lemma chunk_invoice_spatially_eq:
  "chunk_invoice_spatially pages tables = built_chunks pages tables"
  by (simp add: chunk_invoice_spatially_def built_chunks_def fold_add_page_chunks fold_snoc_map)

text \<open>
  Claim C1, as stated, fails: the top-level operation does not apply the merging pass.
  For two tables on the same page, 20 units apart, it returns two chunks, and the merging
  pass applied to the built chunks returns one.
\<close>

theorem merge_pass_not_applied_counterexample:
  "length (chunk_invoice_spatially [] two_tables) = 2 \<and>
   length (merge_related_chunks (built_chunks [] two_tables)) = 1 \<and>
   chunk_invoice_spatially [] two_tables \<noteq> merge_related_chunks (built_chunks [] two_tables)"
proof -
  have a: "length (chunk_invoice_spatially [] two_tables) = 2"
    by code_simp
  have b: "length (merge_related_chunks (built_chunks [] two_tables)) = 1"
    by code_simp
  from a b have "chunk_invoice_spatially [] two_tables \<noteq>
      merge_related_chunks (built_chunks [] two_tables)"
    by auto
  with a b show ?thesis by blast
qed

text \<open>
  Claim C1, amended: for every input of pages and tables, the chunk sequence returned by
  \<^verbatim>\<open>chunk_invoice_spatially\<close> (and so by \<^verbatim>\<open>chunk_invoice_extraction\<close>) is the sequence of
  chunks produced by the builder itself, the page-group chunks followed by the table
  chunks; no merging pass is applied to it.
\<close>

theorem chunk_invoice_spatially_returns_built_chunks:
  "chunk_invoice_spatially pages tables = built_chunks pages tables \<and>
   chunk_invoice_extraction r =
     built_chunks
       (case er_text_extraction r of None \<Rightarrow> []
        | Some te \<Rightarrow> (case te_pages te of None \<Rightarrow> [] | Some ps \<Rightarrow> ps))
       (case er_table_extraction r of None \<Rightarrow> []
        | Some te \<Rightarrow> (case te_tables te of None \<Rightarrow> [] | Some ts \<Rightarrow> ts))"
proof
  have "fold add_page_chunks (enumerate 0 pages) [] =
      concat (map page_group_chunks (enumerate 0 pages))"
    by (simp add: fold_add_page_chunks)
  moreover have "\<And>chunks. fold (\<lambda>tb chunks. chunks @ [create_table_chunk tb]) tables chunks =
      chunks @ map create_table_chunk tables"
    by (rule fold_snoc_map)
  ultimately show "chunk_invoice_spatially pages tables = built_chunks pages tables"
    by (simp add: chunk_invoice_spatially_def built_chunks_def)
next
  show "chunk_invoice_extraction r =
     built_chunks
       (case er_text_extraction r of None \<Rightarrow> []
        | Some te \<Rightarrow> (case te_pages te of None \<Rightarrow> [] | Some ps \<Rightarrow> ps))
       (case er_table_extraction r of None \<Rightarrow> []
        | Some te \<Rightarrow> (case te_tables te of None \<Rightarrow> [] | Some ts \<Rightarrow> ts))"
    by (simp add: chunk_invoice_extraction_def chunk_invoice_spatially_eq)
qed

subsection \<open>Confidence values\<close>

lemma confidence_create_chunk:
  "confidence (create_chunk_from_elements els ctype page_num) = Fin 0.8"
  by (simp add: create_chunk_from_elements_def Let_def)

lemma confidence_page_group_chunks:
  "map confidence (page_group_chunks np) = replicate (length (page_group_chunks np)) (Fin 0.8)"
  by (cases np)
    (simp add: page_group_chunks_def comp_def confidence_create_chunk map_replicate_const)

lemma confidence_concat_page_group_chunks:
  "map confidence (concat (map page_group_chunks nps)) =
     replicate (length (concat (map page_group_chunks nps))) (Fin 0.8)"
proof (induction nps)
  case Nil
  show ?case by simp
next
  case (Cons np nps)
  then show ?case
    by (simp add: confidence_page_group_chunks replicate_add)
qed

lemma confidence_table_chunks:
  "map confidence (map create_table_chunk tables) = replicate (length tables) (Fin 0.9)"
  by (simp add: create_table_chunk_def map_replicate_const comp_def)

text \<open>
  Claim C2, as stated, fails: a line that no content pattern matches and that is not sent
  to the totals is labelled \<^verbatim>\<open>footer\<close> by the spatial fallback, and its chunk has
  confidence 0.8, which is not at most 0.5.
\<close>

theorem fallback_confidence_counterexample:
  "match_content_patterns content_patterns (lower (get_text closing_line)) = None \<and>
   \<not> sent_to_totals closing_line \<and>
   map chunk_type (chunk_invoice_spatially [closing_page] []) = [''footer''] \<and>
   map confidence (chunk_invoice_spatially [closing_page] []) = [Fin 0.8] \<and>
   \<not> fl_le (confidence (hd (chunk_invoice_spatially [closing_page] []))) (Fin 0.5)"
  by code_simp

text \<open>
  Claim C2, amended: every chunk built from a group of fragments has confidence exactly
  0.8, whether the label came from a content pattern, from the totals pre-filter or from
  the spatial fallback, and every table chunk has confidence exactly 0.9; so confidence
  is one constant across all fragment-group chunks.
\<close>

theorem confidence_constants:
  "confidence (create_chunk_from_elements els ctype page_num) = Fin 0.8 \<and>
   confidence (create_table_chunk tb) = Fin 0.9 \<and>
   map confidence (chunk_invoice_spatially pages tables) =
     replicate (length (concat (map page_group_chunks (enumerate 0 pages)))) (Fin 0.8) @
     replicate (length tables) (Fin 0.9)"
  using confidence_concat_page_group_chunks [of "enumerate 0 pages"]
    confidence_table_chunks [of tables]
  by (simp add: chunk_invoice_spatially_eq built_chunks_def create_chunk_from_elements_def
      create_table_chunk_def Let_def)

subsection \<open>Totals keywords come first\<close>

lemma fold_separate_totals:
  "fold separate_totals xs (a, b) =
     (a @ filter sent_to_totals xs, b @ filter (\<lambda>e. \<not> sent_to_totals e) xs)"
  by (induction xs arbitrary: a b) (simp_all add: separate_totals_def sent_to_totals_def)

lemma fold_group_append:
  "fold (\<lambda>e groups. groups(f e := groups (f e) @ [e])) xs groups t =
     groups t @ filter (\<lambda>e. f e = t) xs"
  by (induction xs arbitrary: groups) auto

lemma adaptive_spatial_grouping_eq:
  "adaptive_spatial_grouping els t =
     (if t = ''totals'' then filter sent_to_totals (sort_key (\<lambda>e. - b1 (get_bbox e)) els) else []) @
     filter (\<lambda>e. classify_element e = t)
       (filter (\<lambda>e. \<not> sent_to_totals e) (sort_key (\<lambda>e. - b1 (get_bbox e)) els))"
  by (simp add: adaptive_spatial_grouping_def Let_def fold_separate_totals fold_group_append)

lemma match_content_patterns_key:
  "match_content_patterns ps s = Some t \<Longrightarrow> t \<in> fst ` set ps"
  by (induction ps s rule: match_content_patterns.induct) (auto split: if_splits)

text \<open>
  The classifier only returns keys of the dictionary \<^verbatim>\<open>groups\<close>, so that the lookup
  \<^verbatim>\<open>groups[chunk_type]\<close> never fails.
\<close>

lemma classify_element_in_chunk_types: "classify_element e \<in> set chunk_types"
proof (cases "match_content_patterns content_patterns (lower (get_text e))")
  case None
  then show ?thesis
    by (simp add: classify_element_def classify_element_adaptively_def spatial_fallback_def
        chunk_types_def)
next
  case (Some t)
  from match_content_patterns_key [OF this]
  have "t \<in> {''header'', ''addresses'', ''line_items'', ''totals''}"
    by (simp add: content_patterns_def)
  with Some show ?thesis
    by (auto simp add: classify_element_def classify_element_adaptively_def chunk_types_def)
qed

text \<open>
  Claim C3: an element of a page whose lowercased text contains one of the totals keywords
  (\<^verbatim>\<open>gesamt\<close>, \<^verbatim>\<open>total\<close>, \<^verbatim>\<open>summe\<close>, \<^verbatim>\<open>betrag\<close>, \<^verbatim>\<open>steuer\<close>, \<^verbatim>\<open>mwst\<close>, \<^verbatim>\<open>ust\<close>) is put in
  the totals group, whatever else its text matches; it is in no other group, in
  particular not in the line-items group.
\<close>

theorem totals_keyword_precedence:
  assumes "e \<in> set els"
    and "list_ex (\<lambda>keyword. contains keyword (lower (get_text e))) totals_keywords"
  shows "e \<in> set (adaptive_spatial_grouping els ''totals'') \<and>
         e \<notin> set (adaptive_spatial_grouping els ''line_items'') \<and>
         (\<forall>t. t \<noteq> ''totals'' \<longrightarrow> e \<notin> set (adaptive_spatial_grouping els t))"
proof -
  from assms(2) have "sent_to_totals e" by (simp add: sent_to_totals_def)
  with assms(1) show ?thesis by (simp add: adaptive_spatial_grouping_eq)
qed


theorem totals_keyword_precedence_witness:
  "total_line \<in> set [closing_line, total_line] \<and>
   list_ex (\<lambda>keyword. contains keyword (lower (get_text total_line))) totals_keywords \<and>
   match_content_patterns content_patterns (lower (get_text total_line)) = Some ''line_items'' \<and>
   total_line \<in> set (adaptive_spatial_grouping [closing_line, total_line] ''totals'') \<and>
   total_line \<notin> set (adaptive_spatial_grouping [closing_line, total_line] ''line_items'')"
proof -
  have h1: "total_line \<in> set [closing_line, total_line]"
    by simp
  have h2: "list_ex (\<lambda>keyword. contains keyword (lower (get_text total_line))) totals_keywords"
    by code_simp
  have h3: "match_content_patterns content_patterns (lower (get_text total_line)) =
      Some ''line_items''"
    by code_simp
  from totals_keyword_precedence [OF h1 h2]
  have "total_line \<in> set (adaptive_spatial_grouping [closing_line, total_line] ''totals'')"
    and "total_line \<notin> set (adaptive_spatial_grouping [closing_line, total_line] ''line_items'')"
    by blast+
  with h1 h2 h3 show ?thesis by blast
qed

subsection \<open>The sub-lines of a details cell\<close>

lemma parse_line_cases:
  "parse_line line parsed =
     (if is_quantity_line line then parsed\<lparr>quantity := Some line\<rparr>
      else if is_unit_line line then parsed\<lparr>unit := Some line\<rparr>
      else if is_price_line line then
        (if unit_price parsed = None then parsed\<lparr>unit_price := Some line\<rparr>
         else parsed\<lparr>line_total := Some line\<rparr>)
      else if is_tax_line line then parsed\<lparr>tax_rate := Some line\<rparr>
      else parsed)"
  by (simp add: parse_line_def is_quantity_line_def is_unit_line_def is_price_line_def
      is_tax_line_def)

lemma line_kinds_exclusive:
  "\<not> (is_quantity_line l \<and> is_unit_line l)" "\<not> (is_quantity_line l \<and> is_price_line l)"
  "\<not> (is_quantity_line l \<and> is_tax_line l)" "\<not> (is_unit_line l \<and> is_price_line l)"
  "\<not> (is_unit_line l \<and> is_tax_line l)" "\<not> (is_price_line l \<and> is_tax_line l)"
  by (auto simp add: is_unit_line_def is_price_line_def is_tax_line_def)

lemma fold_parse_line_fields:
  "quantity (fold parse_line ls no_details) = last_of (filter is_quantity_line ls) \<and>
   unit (fold parse_line ls no_details) = last_of (filter is_unit_line ls) \<and>
   tax_rate (fold parse_line ls no_details) = last_of (filter is_tax_line ls) \<and>
   unit_price (fold parse_line ls no_details) = first_of (filter is_price_line ls) \<and>
   line_total (fold parse_line ls no_details) = last_of (tl (filter is_price_line ls))"
proof (induction ls rule: rev_induct)
  case Nil
  show ?case by (simp add: no_details_def last_of_def first_of_def)
next
  case (snoc l ls)
  define p where "p = fold parse_line ls no_details"
  have step: "fold parse_line (ls @ [l]) no_details = parse_line l p"
    by (simp add: p_def)
  from snoc have IH:
    "quantity p = last_of (filter is_quantity_line ls)"
    "unit p = last_of (filter is_unit_line ls)"
    "tax_rate p = last_of (filter is_tax_line ls)"
    "unit_price p = first_of (filter is_price_line ls)"
    "line_total p = last_of (tl (filter is_price_line ls))"
    by (simp_all add: p_def)
  consider (q) "is_quantity_line l" | (u) "is_unit_line l" | (p) "is_price_line l"
    | (t) "is_tax_line l"
    | (n) "\<not> is_quantity_line l" "\<not> is_unit_line l" "\<not> is_price_line l" "\<not> is_tax_line l"
    by blast
  then show ?case
  proof cases
    case q
    with line_kinds_exclusive [of l] have others: "\<not> is_unit_line l" "\<not> is_price_line l"
      "\<not> is_tax_line l" by auto
    from q have "parse_line l p = p\<lparr>quantity := Some l\<rparr>"
      by (simp add: parse_line_cases [of l p])
    with q others IH show ?thesis
      unfolding step by (simp add: last_of_def)
  next
    case u
    with line_kinds_exclusive [of l] have others: "\<not> is_quantity_line l" "\<not> is_price_line l"
      "\<not> is_tax_line l" by auto
    from u others have "parse_line l p = p\<lparr>unit := Some l\<rparr>"
      by (simp add: parse_line_cases [of l p])
    with u others IH show ?thesis
      unfolding step by (simp add: last_of_def)
  next
    case t
    with line_kinds_exclusive [of l] have others: "\<not> is_quantity_line l" "\<not> is_unit_line l"
      "\<not> is_price_line l" by auto
    from t others have "parse_line l p = p\<lparr>tax_rate := Some l\<rparr>"
      by (simp add: parse_line_cases [of l p])
    with t others IH show ?thesis
      unfolding step by (simp add: last_of_def)
  next
    case n
    then have "parse_line l p = p"
      by (simp add: parse_line_cases [of l p])
    with n IH show ?thesis
      unfolding step by simp
  next
    case p
    with line_kinds_exclusive [of l] have others: "\<not> is_quantity_line l" "\<not> is_unit_line l"
      "\<not> is_tax_line l" by auto
    show ?thesis
    proof (cases "filter is_price_line ls")
      case Nil
      with IH have "unit_price p = None" by (simp add: first_of_def)
      with p others have "parse_line l p = p\<lparr>unit_price := Some l\<rparr>"
        by (simp add: parse_line_cases [of l p])
      with p others IH Nil show ?thesis
        unfolding step by (simp add: first_of_def last_of_def)
    next
      case (Cons x xs)
      with IH have "unit_price p = Some x" by (simp add: first_of_def)
      with p others have "parse_line l p = p\<lparr>line_total := Some l\<rparr>"
        by (simp add: parse_line_cases [of l p])
      with p others IH Cons show ?thesis
        unfolding step by (simp add: first_of_def last_of_def)
    qed
  qed
qed

text \<open>
  Claim C4, as stated, fails: quantity, unit and tax rate are not first-match-wins. In a
  cell with the sub-lines \<^verbatim>\<open>1\<close>, \<^verbatim>\<open>Std.\<close>, \<^verbatim>\<open>19%\<close>, \<^verbatim>\<open>2\<close>, \<^verbatim>\<open>Stk.\<close>, \<^verbatim>\<open>7%\<close> the first
  matching sub-lines are \<^verbatim>\<open>1\<close>, \<^verbatim>\<open>Std.\<close> and \<^verbatim>\<open>19%\<close>, and the parsed fields are \<^verbatim>\<open>2\<close>,
  \<^verbatim>\<open>Stk.\<close> and \<^verbatim>\<open>7%\<close>.
\<close>

theorem later_sub_line_replaces_counterexample:
  "first_of (filter is_quantity_line (detail_lines repeated_details)) = Some (str ''1'') \<and>
   quantity (parse_line_item_details repeated_details) = Some (str ''2'') \<and>
   first_of (filter is_unit_line (detail_lines repeated_details)) = Some (str ''Std.'') \<and>
   unit (parse_line_item_details repeated_details) = Some (str ''Stk.'') \<and>
   first_of (filter is_tax_line (detail_lines repeated_details)) = Some (str ''19%'') \<and>
   tax_rate (parse_line_item_details repeated_details) = Some (str ''7%'')"
  by code_simp

text \<open>
  Claim C4, amended: for every details string, quantity, unit and tax rate each hold the
  last sub-line that takes their branch (a later matching sub-line replaces the earlier
  value), and a sub-line that is a numeral with the currency marker is assigned to unit
  price on its first occurrence in the cell and to line total on each later occurrence,
  so on its second occurrence when there are two.
\<close>

theorem parsed_sub_fields:
  "quantity (parse_line_item_details details) =
     last_of (filter is_quantity_line (detail_lines details)) \<and>
   unit (parse_line_item_details details) =
     last_of (filter is_unit_line (detail_lines details)) \<and>
   tax_rate (parse_line_item_details details) =
     last_of (filter is_tax_line (detail_lines details)) \<and>
   unit_price (parse_line_item_details details) =
     first_of (filter is_price_line (detail_lines details)) \<and>
   line_total (parse_line_item_details details) =
     last_of (tl (filter is_price_line (detail_lines details)))"
  unfolding parse_line_item_details_def by (rule fold_parse_line_fields)


text \<open>
  A cell with one sub-line of each kind and a second price: every field is filled, the
  first price is the unit price and the second the line total.
\<close>

lemma full_details_parsed:
  "parse_line_item_details full_details =
     \<lparr>quantity = Some (str ''10,00''), unit = Some (str ''Std.''),
      unit_price = Some (str ''80,00 '' @ currency_marker), tax_rate = Some (str ''19%''),
      line_total = Some (str ''800,00 '' @ currency_marker)\<rparr>"
  by code_simp

section \<open>Properties of the normalizer\<close>

subsection \<open>The reconstructed table\<close>

lemma fold_separate_row:
  "fold separate_row rows (a, b) =
     (a @ filter (\<lambda>r. \<not> is_summary r) rows, b @ filter is_summary rows)"
  by (induction rows arbitrary: a b) (simp_all add: separate_row_def)

lemma reconstruct_table_structure_Some:
  "table_rows \<noteq> [] \<Longrightarrow> \<exists>ts. reconstruct_table_structure table_rows position_names = Some ts"
  by (simp add: reconstruct_table_structure_def Let_def split: prod.splits)

lemma reconstruct_items:
  assumes "reconstruct_table_structure table_rows position_names = Some ts"
  shows "items ts = map (make_item (hd table_rows) position_names)
                      (enumerate 0 (filter (\<lambda>r. \<not> is_summary r) (tl table_rows)))"
proof -
  from assms have ne: "table_rows \<noteq> []"
    by (auto simp add: reconstruct_table_structure_def)
  have dr: "(if length table_rows > 1 then tl table_rows else []) = tl table_rows"
    using ne by (cases table_rows) auto
  from assms ne show ?thesis
    unfolding reconstruct_table_structure_def dr Let_def
    by (auto simp add: fold_separate_row fold_snoc_map)
qed

text \<open>
  Claim C6: for every list of table rows and every list of position names, the items of
  the reconstructed table structure are at most as many as the data rows, that is, the
  rows after the first (header) row.
\<close>

theorem items_length_bound:
  assumes "reconstruct_table_structure table_rows position_names = Some ts"
  shows "length (items ts) \<le> length table_rows - 1"
proof -
  have "length (items ts) = length (filter (\<lambda>r. \<not> is_summary r) (tl table_rows))"
    using reconstruct_items [OF assms] by simp
  also have "\<dots> \<le> length (tl table_rows)" by (rule length_filter_le)
  finally show ?thesis by simp
qed

theorem items_length_bound_witness:
  "reconstruct_table_structure sections_table [] \<noteq> None \<and>
   length (items (the (reconstruct_table_structure sections_table []))) = 2 \<and>
   length (items (the (reconstruct_table_structure sections_table []))) \<le>
     length sections_table - 1"
proof -
  have "sections_table \<noteq> []"
    by (simp add: sections_table_def)
  from reconstruct_table_structure_Some [OF this]
  obtain ts where ts: "reconstruct_table_structure sections_table [] = Some ts"
    by blast
  have "length (filter (\<lambda>r. \<not> is_summary r) (tl sections_table)) = 2"
    by code_simp
  with reconstruct_items [OF ts] have "length (items ts) = 2"
    by simp
  with items_length_bound [OF ts] ts show ?thesis
    by simp
qed

text \<open>
  Claim C5: the \<open>i\<close>-th item row should receive the \<open>i\<close>-th position name after filtering
  out every name that contains a summary keyword. The code does not do this: it
  classifies rows with seven summary keywords and filters the names with \<^verbatim>\<open>summe\<close>
  alone. In a table with the data rows \<^verbatim>\<open>Widget\<close>, \<^verbatim>\<open>Total\<close> (a summary row) and
  \<^verbatim>\<open>Gadget\<close>, the position names are \<^verbatim>\<open>Widget\<close>, \<^verbatim>\<open>Total\<close> and \<^verbatim>\<open>Gadget\<close>, the item rows
  are \<^verbatim>\<open>Widget\<close> and \<^verbatim>\<open>Gadget\<close>, and the second item row receives the name \<^verbatim>\<open>Total\<close>;
  the names without a summary keyword have \<^verbatim>\<open>Gadget\<close> in second place.
\<close>

theorem summary_named_position_failing_input:
  "map pn_name (extract_position_names [] sections_table) =
     [str ''Widget'', str ''Total'', str ''Gadget''] \<and>
   map_option (\<lambda>ts. map raw_row (items ts))
     (reconstruct_table_structure sections_table (extract_position_names [] sections_table)) =
     Some [[str ''Widget'', str ''2''], [str ''Gadget'', str ''3'']] \<and>
   map_option (\<lambda>ts. map position_name (items ts))
     (reconstruct_table_structure sections_table (extract_position_names [] sections_table)) =
     Some [Some (str ''Widget''), Some (str ''Total'')] \<and>
   names_without_summary_keyword (extract_position_names [] sections_table) =
     [str ''Widget'', str ''Gadget'']"
  by code_simp

text \<open>
  What the code computes instead: the name of the \<open>i\<close>-th item row is the \<open>i\<close>-th of the
  position names that do not contain \<^verbatim>\<open>summe\<close>, so a name taken from a summary row with
  another keyword stays in the list and shifts the names of the item rows after it.
\<close>

lemma position_name_of_item:
  assumes "reconstruct_table_structure table_rows position_names = Some ts"
    and "i < length (filter (\<lambda>r. \<not> is_summary r) (tl table_rows))"
  shows "raw_row (items ts ! i) = filter (\<lambda>r. \<not> is_summary r) (tl table_rows) ! i \<and>
         position_name (items ts ! i) =
           (if i < length (filter (\<lambda>p. \<not> contains (str ''summe'') (lower (pn_name p)))
                             position_names)
            then Some (pn_name (filter (\<lambda>p. \<not> contains (str ''summe'') (lower (pn_name p)))
                                  position_names ! i))
            else None)"
proof -
  let ?rows = "filter (\<lambda>r. \<not> is_summary r) (tl table_rows)"
  let ?kept = "filter (\<lambda>p. \<not> contains (str ''summe'') (lower (pn_name p))) position_names"
  have "items ts ! i = make_item (hd table_rows) position_names (i, ?rows ! i)"
    using reconstruct_items [OF assms(1)] assms(2) by (simp add: nth_enumerate_eq)
  moreover have "i < length ?kept \<Longrightarrow> i < length position_names"
    using length_filter_le [of "\<lambda>p. \<not> contains (str ''summe'') (lower (pn_name p))" position_names]
    by linarith
  ultimately show ?thesis by (auto simp add: make_item_def Let_def)
qed

lemma position_name_of_item_at_sections_table:
  "reconstruct_table_structure sections_table (extract_position_names [] sections_table) \<noteq> None \<and>
   (1::nat) < length (filter (\<lambda>r. \<not> is_summary r) (tl sections_table)) \<and>
   raw_row (items (the (reconstruct_table_structure sections_table
                          (extract_position_names [] sections_table))) ! 1) =
     [str ''Gadget'', str ''3''] \<and>
   position_name (items (the (reconstruct_table_structure sections_table
                                (extract_position_names [] sections_table))) ! 1) =
     Some (str ''Total'')"
proof -
  let ?ps = "extract_position_names [] sections_table"
  have "sections_table \<noteq> []"
    by (simp add: sections_table_def)
  from reconstruct_table_structure_Some [OF this]
  obtain ts where ts: "reconstruct_table_structure sections_table ?ps = Some ts"
    by blast
  have i: "(1::nat) < length (filter (\<lambda>r. \<not> is_summary r) (tl sections_table))"
    by code_simp
  have row: "filter (\<lambda>r. \<not> is_summary r) (tl sections_table) ! 1 = [str ''Gadget'', str ''3'']"
    by code_simp
  have name: "(if 1 < length (filter (\<lambda>p. \<not> contains (str ''summe'') (lower (pn_name p))) ?ps)
               then Some (pn_name (filter (\<lambda>p. \<not> contains (str ''summe'') (lower (pn_name p)))
                                     ?ps ! 1))
               else None) = Some (str ''Total'')"
    by code_simp
  from position_name_of_item [OF ts i] row name
  have "raw_row (items ts ! 1) = [str ''Gadget'', str ''3''] \<and>
        position_name (items ts ! 1) = Some (str ''Total'')"
    by (simp only:)
  with ts i show ?thesis
    by (simp only: option.sel option.distinct simp_thms)
qed

subsection \<open>Position names are unique\<close>

lemma add_table_position_append:
  "add_table_position j row acc = acc @ add_table_position j row []"
  by (simp add: add_table_position_def Let_def split: option.splits)

lemma add_content_position_append:
  "add_content_position els iel acc = acc @ add_content_position els iel []"
  by (simp add: add_content_position_def Let_def split: prod.splits)

lemma add_page_positions_append:
  "add_page_positions pg acc = acc @ add_page_positions pg []"
proof -
  have "\<And>els xs acc. fold (add_content_position els) xs acc =
      acc @ concat (map (\<lambda>x. add_content_position els x []) xs)"
    by (rule fold_append_concat) (rule add_content_position_append)
  then show ?thesis
    by (simp add: add_page_positions_def Let_def)
qed

lemma collect_position_names_order:
  "collect_position_names pages table_rows =
     table_positions table_rows [] @ concat (map (\<lambda>pg. add_page_positions pg []) pages)"
  unfolding collect_position_names_def
  by (rule fold_append_concat) (rule add_page_positions_append)

lemma fold_keep_unseen_invariant:
  assumes "distinct (map pn_name acc)" and "pn_name ` set acc \<subseteq> seen"
  shows "distinct (map pn_name (snd (fold keep_unseen xs (seen, acc)))) \<and>
         pn_name ` set (snd (fold keep_unseen xs (seen, acc))) \<subseteq>
           fst (fold keep_unseen xs (seen, acc))"
  using assms
proof (induction xs arbitrary: seen acc)
  case Nil
  then show ?case by simp
next
  case (Cons x xs)
  show ?case
  proof (cases "pn_name x \<in> seen")
    case True
    then have "fold keep_unseen (x # xs) (seen, acc) = fold keep_unseen xs (seen, acc)"
      by (simp add: keep_unseen_def)
    with Cons show ?thesis by simp
  next
    case False
    then have step: "fold keep_unseen (x # xs) (seen, acc) =
        fold keep_unseen xs (insert (pn_name x) seen, acc @ [x])"
      by (simp add: keep_unseen_def)
    from False Cons.prems have "distinct (map pn_name (acc @ [x]))"
      and "pn_name ` set (acc @ [x]) \<subseteq> insert (pn_name x) seen"
      by auto
    from Cons.IH [OF this] step show ?thesis by simp
  qed
qed

text \<open>
  The entries that the last loop keeps are those at the indices whose name is neither in
  \<^verbatim>\<open>seen\<close> nor the name of an earlier entry, in the order of the indices.
\<close>

lemma fold_keep_unseen_firsts:
  "snd (fold keep_unseen xs (seen, acc)) =
     acc @ map ((!) xs)
             (filter (\<lambda>i. pn_name (xs ! i) \<notin> seen \<union> pn_name ` set (take i xs))
                [0..<length xs])"
proof (induction xs arbitrary: seen acc)
  case Nil
  show ?case by simp
next
  case (Cons x xs)
  let ?P = "\<lambda>S ys i. pn_name (ys ! i) \<notin> S \<union> pn_name ` set (take i ys)"
  have upt: "[0..<length (x # xs)] = 0 # map Suc [0..<length xs]"
    by (simp add: upt_conv_Cons map_Suc_upt del: upt_Suc)
  have shift: "map ((!) (x # xs)) (filter (?P seen (x # xs)) (map Suc [0..<length xs])) =
               map ((!) xs) (filter (?P (insert (pn_name x) seen) xs) [0..<length xs])"
  proof -
    have P: "\<And>i. (pn_name (xs ! i) \<notin> seen \<union> pn_name ` set (take (Suc i) (x # xs))) =
        ?P (insert (pn_name x) seen) xs i"
      by auto
    show ?thesis
      by (simp only: filter_map map_map comp_def P nth_Cons_Suc)
  qed
  show ?case
  proof (cases "pn_name x \<in> seen")
    case True
    then have ins: "insert (pn_name x) seen = seen" by auto
    from True have "snd (fold keep_unseen (x # xs) (seen, acc)) =
        snd (fold keep_unseen xs (seen, acc))"
      by (simp add: keep_unseen_def)
    also have "\<dots> = acc @ map ((!) xs) (filter (?P seen xs) [0..<length xs])"
      by (rule Cons.IH)
    finally show ?thesis using True shift unfolding upt ins by simp
  next
    case False
    then have "snd (fold keep_unseen (x # xs) (seen, acc)) =
        snd (fold keep_unseen xs (insert (pn_name x) seen, acc @ [x]))"
      by (simp add: keep_unseen_def)
    also have "\<dots> = (acc @ [x]) @
        map ((!) xs) (filter (?P (insert (pn_name x) seen) xs) [0..<length xs])"
      by (rule Cons.IH)
    finally show ?thesis using False shift unfolding upt by simp
  qed
qed

text \<open>
  Claim C7: for every input, no two entries of the list returned by
  \<^verbatim>\<open>extract_position_names\<close> have the same name; the list consists of the entries of the
  merged list (the names from the table column, then the names from the page content)
  whose name no earlier entry of the merged list has, in the order of the merged list.
\<close>

theorem position_names_unique:
  "distinct (map pn_name (extract_position_names pages table_rows)) \<and>
   extract_position_names pages table_rows =
     map ((!) (collect_position_names pages table_rows))
       (filter (\<lambda>i. pn_name (collect_position_names pages table_rows ! i)
                      \<notin> pn_name ` set (take i (collect_position_names pages table_rows)))
          [0..<length (collect_position_names pages table_rows)]) \<and>
   collect_position_names pages table_rows =
     table_positions table_rows [] @ concat (map (\<lambda>pg. add_page_positions pg []) pages)"
  using fold_keep_unseen_invariant [of "[]" "{}" "collect_position_names pages table_rows"]
    fold_keep_unseen_firsts [of "collect_position_names pages table_rows" "{}" "[]"]
    collect_position_names_order [of pages table_rows]
  by (simp add: extract_position_names_def)

end
